theory Spec2Isabelle
  imports Complex_Main
begin

section \<open>JavaScript values, exceptions and the built-ins the source calls\<close>

text \<open>
  The service and the proxy handle untyped data (\<^verbatim>\<open>any\<close>, the result of
  \<^verbatim>\<open>JSON.parse\<close> and of \<^verbatim>\<open>response.json()\<close>), so values are modelled
  dynamically. An object is the list of its own properties in insertion order. Numbers are
  idealised as reals; \<^verbatim>\<open>NaN\<close> does not occur in parsed JSON. Strings are HOL strings
  holding the UTF-8 bytes of the text; the pictographs that open the log messages are written
  as their bytes. The string operations that depend on the encoding
  (\<^verbatim>\<open>trim\<close>, \<^verbatim>\<open>substring\<close>) are built-ins of the runtime below; removing the
  ASCII code fences and splitting at an ASCII character are the same on bytes.
\<close>

datatype jsval =
    JUndefined
  | JNull
  | JBool bool
  | JNum real
  | JStr string
  | JArr "jsval list"
  | JObj "(string \<times> jsval) list"

text \<open>
  A thrown value. \<open>Err m c cc\<close> is an \<^verbatim>\<open>Error\<close> object (or an instance of a
  subclass) with \<^verbatim>\<open>message\<close> \<open>m\<close>, \<^verbatim>\<open>code\<close> \<open>c\<close> and
  \<^verbatim>\<open>cause.code\<close> \<open>cc\<close>; \<open>NonError\<close> is any thrown value that is not an
  \<^verbatim>\<open>Error\<close> and has none of these properties (the \<^verbatim>\<open>ProgressEvent\<close> that
  \<^verbatim>\<open>fileToBase64\<close> rejects with).
\<close>

datatype exn =
    Err string "string option" "string option"
  | NonError

definition Error :: "string \<Rightarrow> exn" where
  \<comment> \<open>\<^verbatim>\<open>new Error(msg)\<close>\<close>
  "Error msg = Err msg None None"

text \<open>
  The built-ins of the JavaScript runtime and the ambient configuration that the source
  reads. None of them is code of the repository, so they are parameters of the model.
\<close>

record js_env =
  JSON_parse :: "string \<Rightarrow> jsval option"
    \<comment> \<open>\<^verbatim>\<open>JSON.parse\<close>; \<open>None\<close> when it throws \<^verbatim>\<open>SyntaxError\<close>\<close>
  trim :: "string \<Rightarrow> string"
    \<comment> \<open>\<^verbatim>\<open>String.prototype.trim\<close>\<close>
  substring :: "string \<Rightarrow> nat \<Rightarrow> nat \<Rightarrow> string"
    \<comment> \<open>\<^verbatim>\<open>String.prototype.substring\<close>\<close>
  numToString :: "real \<Rightarrow> string"
    \<comment> \<open>\<^verbatim>\<open>Number.prototype.toString\<close>\<close>
  strToNumber :: "string \<Rightarrow> real option"
    \<comment> \<open>\<^verbatim>\<open>ToNumber\<close> on a string; \<open>None\<close> for \<^verbatim>\<open>NaN\<close>\<close>
  parseFloat :: "string \<Rightarrow> real option"
    \<comment> \<open>\<^verbatim>\<open>parseFloat\<close>; \<open>None\<close> for \<^verbatim>\<open>NaN\<close>\<close>
  dateParse :: "string \<Rightarrow> int option"
    \<comment> \<open>the time value of \<^verbatim>\<open>new Date(s)\<close>; \<open>None\<close> for an invalid date\<close>
  now :: int
    \<comment> \<open>the time value of \<^verbatim>\<open>new Date()\<close>\<close>
  toISOString :: "int \<Rightarrow> string"
    \<comment> \<open>\<^verbatim>\<open>Date.prototype.toISOString\<close> of a valid time value\<close>
  minusDays :: "int \<Rightarrow> nat \<Rightarrow> int"
    \<comment> \<open>\<^verbatim>\<open>d.setDate(d.getDate() - n)\<close> in the local time zone\<close>
  localeDate :: "jsval \<Rightarrow> string"
    \<comment> \<open>\<^verbatim>\<open>new Date(v).toLocaleDateString()\<close>, which never throws\<close>
  clock :: "nat \<Rightarrow> string"
    \<comment> \<open>\<^verbatim>\<open>new Date().toISOString()\<close> at the moment the \<open>n\<close>-th log entry is appended\<close>
  API_KEY :: "string option"
    \<comment> \<open>\<^verbatim>\<open>process.env.API_KEY\<close>\<close>
  BACKEND_API_URL :: string

subsection \<open>Truthiness, property access, string conversion\<close>

fun truthy :: "jsval \<Rightarrow> bool" where
  "truthy JUndefined = False"
| "truthy JNull = False"
| "truthy (JBool b) = b"
| "truthy (JNum n) = (n \<noteq> 0)"
| "truthy (JStr s) = (s \<noteq> [])"
| "truthy (JArr _) = True"
| "truthy (JObj _) = True"

definition str_truthy :: "string option \<Rightarrow> bool" where
  \<comment> \<open>truthiness of a \<^verbatim>\<open>string | null | undefined\<close>\<close>
  "str_truthy s = (case s of None \<Rightarrow> False | Some t \<Rightarrow> t \<noteq> [])"

definition js_or :: "jsval \<Rightarrow> jsval \<Rightarrow> jsval" where
  \<comment> \<open>\<^verbatim>\<open>a || b\<close>\<close>
  "js_or a b = (if truthy a then a else b)"

definition cannot_read :: "string \<Rightarrow> string \<Rightarrow> exn" where
  \<comment> \<open>the \<^verbatim>\<open>TypeError\<close> of a property read on \<^verbatim>\<open>null\<close> or \<^verbatim>\<open>undefined\<close>
      (the wording of the message is the engine's)\<close>
  "cannot_read what k =
     Error (''Cannot read properties of '' @ what @ '' (reading '' @ [CHR 0x27] @ k @ [CHR 0x27] @ '')'')"

definition not_a_function :: "string \<Rightarrow> exn" where
  "not_a_function path = Error (path @ '' is not a function'')"

text \<open>\<^verbatim>\<open>v.k\<close>, for a key \<open>k\<close> other than \<^verbatim>\<open>length\<close>.\<close>

fun get_prop :: "jsval \<Rightarrow> string \<Rightarrow> exn + jsval" where
  "get_prop JUndefined k = Inl (cannot_read ''undefined'' k)"
| "get_prop JNull k = Inl (cannot_read ''null'' k)"
| "get_prop (JObj kvs) k = Inr (case map_of kvs k of None \<Rightarrow> JUndefined | Some v \<Rightarrow> v)"
| "get_prop _ k = Inr JUndefined"

text \<open>\<^verbatim>\<open>v.length\<close>.\<close>

fun js_length :: "jsval \<Rightarrow> exn + jsval" where
  "js_length (JArr xs) = Inr (JNum (of_nat (length xs)))"
| "js_length (JStr s) = Inr (JNum (of_nat (length s)))"
| "js_length v = get_prop v ''length''"

text \<open>
  The string a template literal inserts for a value. An array joins its elements with
  commas, \<^verbatim>\<open>null\<close> and \<^verbatim>\<open>undefined\<close> elements printing as the empty string.
\<close>

fun to_string :: "js_env \<Rightarrow> jsval \<Rightarrow> string"
  and join_elems :: "js_env \<Rightarrow> jsval list \<Rightarrow> string" where
  "to_string E JUndefined = ''undefined''"
| "to_string E JNull = ''null''"
| "to_string E (JBool b) = (if b then ''true'' else ''false'')"
| "to_string E (JNum n) = numToString E n"
| "to_string E (JStr s) = s"
| "to_string E (JArr xs) = join_elems E xs"
| "to_string E (JObj _) = ''[object Object]''"
| "join_elems E [] = []"
| "join_elems E (JUndefined # xs) = (if xs = [] then [] else '','' @ join_elems E xs)"
| "join_elems E (JNull # xs) = (if xs = [] then [] else '','' @ join_elems E xs)"
| "join_elems E (x # xs) = to_string E x @ (if xs = [] then [] else '','' @ join_elems E xs)"

definition nat_to_string :: "js_env \<Rightarrow> nat \<Rightarrow> string" where
  "nat_to_string E n = numToString E (of_nat n)"

text \<open>\<^verbatim>\<open>v > 0\<close>, after \<^verbatim>\<open>ToNumber\<close>.\<close>

fun gt_zero :: "js_env \<Rightarrow> jsval \<Rightarrow> bool" where
  "gt_zero E JUndefined = False"
| "gt_zero E JNull = False"
| "gt_zero E (JBool b) = b"
| "gt_zero E (JNum n) = (n > 0)"
| "gt_zero E (JObj _) = False"
| "gt_zero E v = (case strToNumber E (to_string E v) of None \<Rightarrow> False | Some n \<Rightarrow> n > 0)"

subsection \<open>Strings\<close>

definition split_first :: "char \<Rightarrow> string \<Rightarrow> string" where
  \<comment> \<open>\<^verbatim>\<open>s.split(c)[0]\<close>\<close>
  "split_first c s = takeWhile (\<lambda>x. x \<noteq> c) s"

definition fence :: string where
  "fence = [CHR 0x60, CHR 0x60, CHR 0x60]"

text \<open>
  \<^verbatim>\<open>s.replace(/```json|```/g, '')\<close>: scanning from the left, the longer alternative
  is tried first, and the scan resumes after each removed match.
\<close>

fun strip_fences :: "string \<Rightarrow> string" where
  "strip_fences [] = []"
| "strip_fences (c # cs) =
     (if take 7 (c # cs) = fence @ ''json'' then strip_fences (drop 6 cs)
      else if take 3 (c # cs) = fence then strip_fences (drop 2 cs)
      else c # strip_fences cs)"

definition clean_json :: "js_env \<Rightarrow> string \<Rightarrow> string" where
  \<comment> \<open>\<^verbatim>\<open>text.replace(/```json|```/g, '').trim()\<close>\<close>
  "clean_json E t = trim E (strip_fences t)"

text \<open>Object spread and property definition in an object literal.\<close>

fun enumerate_from :: "js_env \<Rightarrow> nat \<Rightarrow> jsval list \<Rightarrow> (string \<times> jsval) list" where
  "enumerate_from E i [] = []"
| "enumerate_from E i (x # xs) = (nat_to_string E i, x) # enumerate_from E (Suc i) xs"

fun spread :: "js_env \<Rightarrow> jsval \<Rightarrow> (string \<times> jsval) list" where
  "spread E (JObj kvs) = kvs"
| "spread E (JArr xs) = enumerate_from E 0 xs"
| "spread E (JStr s) = enumerate_from E 0 (map (\<lambda>c. JStr [c]) s)"
| "spread E _ = []"

fun obj_set :: "string \<Rightarrow> jsval \<Rightarrow> (string \<times> jsval) list \<Rightarrow> (string \<times> jsval) list" where
  "obj_set k v [] = [(k, v)]"
| "obj_set k v ((k', v') # kvs) = (if k' = k then (k, v) # kvs else (k', v') # obj_set k v kvs)"

definition opt_str :: "string option \<Rightarrow> jsval" where
  "opt_str s = (case s of None \<Rightarrow> JUndefined | Some t \<Rightarrow> JStr t)"

section \<open>The outside world of the client\<close>

record web_source =
  title :: "string option"
  uri :: "string option"

text \<open>
  A completion-service response: its \<^verbatim>\<open>text\<close> (a string, as the source's signatures
  declare it) and, per grounding chunk of the first candidate, the chunk's \<^verbatim>\<open>web\<close>
  field (the list is empty when any link of
  \<^verbatim>\<open>candidates?.[0]?.groundingMetadata?.groundingChunks\<close> is missing).
\<close>

record gen_response =
  resp_text :: string
  groundingChunks :: "web_source option list"

record http_response =
  ok :: bool
  status :: nat
  statusText :: string
  json :: "exn + jsval"

record js_file =
  mimeType :: string

text \<open>
  A request to the completion service is one of the five prompt templates of the source
  together with the values the template inserts.
\<close>

datatype gen_request =
    CluesPrompt string string string
  | GroundingPrompt string string
  | StructuringPrompt string
  | TimestampPrompt string string jsval jsval jsval "string option"
  | ReportPrompt string string string jsval jsval string "jsval list" jsval

text \<open>
  The world of one run: the outcome of each of the three \<^verbatim>\<open>fileToBase64\<close> reads, the
  completion service as a function from requests to outcomes, and the proxy as a function
  from the search URL to the outcome of \<^verbatim>\<open>fetch\<close>. \<open>Inl\<close> is a rejected promise.
\<close>

record world =
  read_for_clues :: "exn + string"
  read_for_time :: "exn + string"
  read_for_report :: "exn + string"
  generateContent :: "gen_request \<Rightarrow> exn + gen_response"
  fetch :: "string \<Rightarrow> exn + http_response"

section \<open>\<^verbatim>\<open>GeminiService\<close>\<close>

definition new_GeminiService :: "js_env \<Rightarrow> exn + unit" where
  "new_GeminiService E =
     (if \<not> str_truthy (API_KEY E) then Inl (Error ''API_KEY environment variable not set'')
      else Inr ())"

definition invalid_time_value :: exn where
  \<comment> \<open>the \<^verbatim>\<open>RangeError\<close> of \<^verbatim>\<open>toISOString\<close> on an invalid date\<close>
  "invalid_time_value = Error ''Invalid time value''"

definition isoString :: "js_env \<Rightarrow> int option \<Rightarrow> exn + string" where
  "isoString E d = (case d of None \<Rightarrow> Inl invalid_time_value | Some t \<Rightarrow> Inr (toISOString E t))"

definition today :: "js_env \<Rightarrow> string" where
  \<comment> \<open>\<^verbatim>\<open>new Date().toISOString().split('T')[0]\<close>\<close>
  "today E = split_first CHR ''T'' (toISOString E (now E))"

definition searchUrl :: "js_env \<Rightarrow> jsval \<Rightarrow> jsval \<Rightarrow> string \<Rightarrow> string \<Rightarrow> string" where
  "searchUrl E lat lon beforeDateStr dateStr =
     BACKEND_API_URL E @ ''/api/satellite/search?lat='' @ to_string E lat @ ''&lon='' @ to_string E lon
       @ ''&startDate='' @ beforeDateStr @ ''&endDate='' @ dateStr @ ''&limit=5''"

definition getSatelliteImagery_try ::
    "js_env \<Rightarrow> world \<Rightarrow> jsval \<Rightarrow> jsval \<Rightarrow> string option \<Rightarrow> exn + jsval" where
  \<comment> \<open>the body of the \<^verbatim>\<open>try\<close> block\<close>
  "getSatelliteImagery_try E W lat lon date =
     (let targetDate = (if str_truthy date then dateParse E (the date) else Some (now E)) in
      case isoString E targetDate of Inl e \<Rightarrow> Inl e | Inr isoTarget \<Rightarrow>
      let dateStr = split_first CHR ''T'' isoTarget;
          beforeDate = map_option (\<lambda>t. minusDays E t 30) targetDate in
      case isoString E beforeDate of Inl e \<Rightarrow> Inl e | Inr isoBefore \<Rightarrow>
      let beforeDateStr = split_first CHR ''T'' isoBefore in
      case fetch W (searchUrl E lat lon beforeDateStr dateStr) of Inl e \<Rightarrow> Inl e
      | Inr searchResponse \<Rightarrow>
          if \<not> ok searchResponse then
            (let errorData = (case json searchResponse of Inl _ \<Rightarrow> JObj [] | Inr v \<Rightarrow> v) in
             case get_prop errorData ''message'' of Inl e \<Rightarrow> Inl e
             | Inr m \<Rightarrow> Inl (Error (to_string E (js_or m (JStr ''Imagery search failed'')))))
          else json searchResponse)"

definition satellite_fallback :: "js_env \<Rightarrow> jsval \<Rightarrow> jsval \<Rightarrow> string option \<Rightarrow> jsval" where
  \<comment> \<open>the value returned by the \<^verbatim>\<open>catch\<close> block\<close>
  "satellite_fallback E lat lon date =
     JObj [(''available'', JBool False),
           (''location'', JObj [(''lat'', lat), (''lon'', lon)]),
           (''searchDate'', JStr (if str_truthy date then the date else today E))]"

definition getSatelliteImagery ::
    "js_env \<Rightarrow> world \<Rightarrow> jsval \<Rightarrow> jsval \<Rightarrow> string option \<Rightarrow> jsval" where
  "getSatelliteImagery E W lat lon date =
     (case getSatelliteImagery_try E W lat lon date of
        Inr data \<Rightarrow> data
      | Inl error \<Rightarrow> satellite_fallback E lat lon date)"

definition analyzeMediaForClues :: "js_env \<Rightarrow> world \<Rightarrow> js_file \<Rightarrow> string \<Rightarrow> exn + string" where
  "analyzeMediaForClues E W file locationContext =
     (case read_for_clues W of Inl e \<Rightarrow> Inl e | Inr base64Data \<Rightarrow>
      case generateContent W (CluesPrompt (mimeType file) base64Data locationContext) of
        Inl e \<Rightarrow> Inl e
      | Inr response \<Rightarrow> Inr (resp_text response))"

definition source_obj :: "web_source \<Rightarrow> jsval" where
  \<comment> \<open>\<^verbatim>\<open>{ title: web.title, uri: web.uri }\<close>\<close>
  "source_obj web = JObj [(''title'', opt_str (title web)), (''uri'', opt_str (uri web))]"

definition location_fallback :: "string \<Rightarrow> jsval" where
  "location_fallback locationText =
     JObj [(''address'', JStr locationText),
           (''latitude'', JNum 31.5),
           (''longitude'', JNum 34.45),
           (''confidence'', JNum 30),
           (''accuracy'', JStr ''region'')]"

definition findLocationWithGrounding ::
    "js_env \<Rightarrow> world \<Rightarrow> string \<Rightarrow> string \<Rightarrow> exn + (jsval \<times> jsval list)" where
  "findLocationWithGrounding E W clues locationContext =
     (case generateContent W (GroundingPrompt clues locationContext) of Inl e \<Rightarrow> Inl e
      | Inr response \<Rightarrow>
      let locationText = resp_text response;
          sources = map source_obj (List.map_filter id (groundingChunks response)) in
      case generateContent W (StructuringPrompt locationText) of Inl e \<Rightarrow> Inl e
      | Inr structuringResponse \<Rightarrow>
          (case JSON_parse E (clean_json E (resp_text structuringResponse)) of
             Some locationData \<Rightarrow> Inr (locationData, sources)
           | None \<Rightarrow> Inr (location_fallback locationText, sources)))"

definition time_fallback :: "string \<Rightarrow> jsval" where
  "time_fallback responseText =
     JObj [(''estimatedTimeOfDay'', JStr ''unknown''),
           (''confidence'', JNum 0),
           (''primaryMethod'', JStr ''error''),
           (''shadowAnalysis'', JStr responseText),
           (''reasoning'', JStr ''Could not parse response'')]"

definition determineTimestamp ::
    "js_env \<Rightarrow> world \<Rightarrow> js_file \<Rightarrow> jsval \<Rightarrow> string option \<Rightarrow> exn + jsval" where
  "determineTimestamp E W file locationData claimedDate =
     (case read_for_time W of Inl e \<Rightarrow> Inl e | Inr base64Data \<Rightarrow>
      case get_prop locationData ''address'' of Inl e \<Rightarrow> Inl e | Inr address \<Rightarrow>
      case get_prop locationData ''latitude'' of Inl e \<Rightarrow> Inl e | Inr latitude \<Rightarrow>
      case get_prop locationData ''longitude'' of Inl e \<Rightarrow> Inl e | Inr longitude \<Rightarrow>
      case generateContent W
             (TimestampPrompt (mimeType file) base64Data address latitude longitude claimedDate) of
        Inl e \<Rightarrow> Inl e
      | Inr response \<Rightarrow>
          (case JSON_parse E (clean_json E (resp_text response)) of
             Some timeData \<Rightarrow> Inr timeData
           | None \<Rightarrow> Inr (time_fallback (resp_text response))))"

definition invalid_report_format :: string where
  "invalid_report_format = ''AI returned a report in an invalid format.''"

definition generateVerificationReport ::
    "js_env \<Rightarrow> world \<Rightarrow> js_file \<Rightarrow> string \<Rightarrow> jsval \<Rightarrow> jsval \<Rightarrow> string \<Rightarrow> jsval list \<Rightarrow> jsval
       \<Rightarrow> exn + jsval" where
  "generateVerificationReport E W file clues locationData timeData claimedTimestamp sources
       satelliteData =
     (case read_for_report W of Inl e \<Rightarrow> Inl e | Inr base64Data \<Rightarrow>
      case get_prop timeData ''estimatedTimeOfDay'' of Inl e \<Rightarrow> Inl e | Inr _ \<Rightarrow>
      case generateContent W
             (ReportPrompt (mimeType file) base64Data clues locationData timeData claimedTimestamp
                sources satelliteData) of
        Inl e \<Rightarrow> Inl e
      | Inr response \<Rightarrow>
          (case JSON_parse E (clean_json E (resp_text response)) of
             Some reportData \<Rightarrow>
               Inr (JObj (obj_set ''satelliteData'' (js_or satelliteData JUndefined)
                           (obj_set ''groundingSources'' (JArr sources) (spread E reportData))))
           | None \<Rightarrow> Inl (Error invalid_report_format)))"

section \<open>The \<^verbatim>\<open>useVerification\<close> hook\<close>

text \<open>The pictographs of the log messages, as UTF-8 bytes.\<close>

definition ROCKET :: string where
  "ROCKET = [CHR 0xF0, CHR 0x9F, CHR 0x9A, CHR 0x80]"

definition ROUND_PUSHPIN :: string where
  "ROUND_PUSHPIN = [CHR 0xF0, CHR 0x9F, CHR 0x93, CHR 0x8D]"

definition ALARM_CLOCK :: string where
  "ALARM_CLOCK = [CHR 0xE2, CHR 0x8F, CHR 0xB0]"

definition EARTH_GLOBE :: string where
  "EARTH_GLOBE = [CHR 0xF0, CHR 0x9F, CHR 0x8C, CHR 0x8D]"

definition CHECK_MARK :: string where
  "CHECK_MARK = [CHR 0xE2, CHR 0x9C, CHR 0x85]"

definition MAGNIFYING_GLASS :: string where
  "MAGNIFYING_GLASS = [CHR 0xF0, CHR 0x9F, CHR 0x94, CHR 0x8E]"

definition DIRECT_HIT :: string where
  "DIRECT_HIT = [CHR 0xF0, CHR 0x9F, CHR 0x8E, CHR 0xAF]"

definition LINK_SYMBOL :: string where
  "LINK_SYMBOL = [CHR 0xF0, CHR 0x9F, CHR 0x94, CHR 0x97]"

definition SATELLITE :: string where
  "SATELLITE = [CHR 0xF0, CHR 0x9F, CHR 0x9B, CHR 0xB0, CHR 0xEF, CHR 0xB8, CHR 0x8F]"

definition CALENDAR :: string where
  "CALENDAR = [CHR 0xF0, CHR 0x9F, CHR 0x93, CHR 0x85]"

definition WARNING_SIGN :: string where
  "WARNING_SIGN = [CHR 0xE2, CHR 0x9A, CHR 0xA0, CHR 0xEF, CHR 0xB8, CHR 0x8F]"

definition BAR_CHART :: string where
  "BAR_CHART = [CHR 0xF0, CHR 0x9F, CHR 0x93, CHR 0x8A]"

definition LIGHT_BULB :: string where
  "LIGHT_BULB = [CHR 0xF0, CHR 0x9F, CHR 0x92, CHR 0xA1]"

definition ROBOT_FACE :: string where
  "ROBOT_FACE = [CHR 0xF0, CHR 0x9F, CHR 0xA4, CHR 0x96]"

definition CLIPBOARD :: string where
  "CLIPBOARD = [CHR 0xF0, CHR 0x9F, CHR 0x93, CHR 0x8B]"

definition CROSS_MARK :: string where
  "CROSS_MARK = [CHR 0xE2, CHR 0x9D, CHR 0x8C]"

datatype LogType = LogInfo | LogProcessing | LogSuccess | LogWarning | LogError

record LogEntry =
  type :: LogType
  message :: string
  timestamp :: string

text \<open>
  The methods of the service that a run calls, with the arguments of the imagery search.
  The list \<open>invoked\<close> of the state below records them in call order; it is the only
  component of the state that is not a state variable of the hook.
\<close>

datatype service_call =
    AnalyzeMediaForClues
  | FindLocationWithGrounding
  | GetSatelliteImagery jsval jsval "string option"
  | DetermineTimestamp
  | GenerateVerificationReport

record hook_state =
  isLoading :: bool
  log :: "LogEntry list"
  report :: "jsval option"
  error :: "string option"
  invoked :: "service_call list"

definition addLogEntry :: "js_env \<Rightarrow> LogType \<Rightarrow> string \<Rightarrow> hook_state \<Rightarrow> hook_state" where
  "addLogEntry E t m s =
     s\<lparr>log := log s @ [\<lparr>type = t, message = m, timestamp = clock E (length (log s))\<rparr>]\<rparr>"

definition invoke :: "service_call \<Rightarrow> hook_state \<Rightarrow> hook_state" where
  "invoke c s = s\<lparr>invoked := invoked s @ [c]\<rparr>"

definition dateOf :: "string \<Rightarrow> string option" where
  \<comment> \<open>\<^verbatim>\<open>claimedTimestamp ? claimedTimestamp.split('T')[0] : null\<close>\<close>
  "dateOf claimedTimestamp =
     (if claimedTimestamp \<noteq> [] then Some (split_first CHR ''T'' claimedTimestamp) else None)"

subsection \<open>Phase 1: visual clues\<close>

definition phase1 ::
    "js_env \<Rightarrow> world \<Rightarrow> js_file \<Rightarrow> string \<Rightarrow> hook_state \<Rightarrow> (exn + string) \<times> hook_state" where
  "phase1 E W file locationContext s =
     (let s1 = addLogEntry E LogProcessing
                 (EARTH_GLOBE @ '' PHASE 1: Extracting visual clues with Gemini Pro...'') s;
          s2 = invoke AnalyzeMediaForClues s1 in
      case analyzeMediaForClues E W file locationContext of
        Inl e \<Rightarrow> (Inl e, s2)
      | Inr clues \<Rightarrow>
          (Inr clues,
           addLogEntry E LogSuccess
             (CHECK_MARK @ '' Visual clues extracted: '' @ substring E clues 0 150 @ ''...'') s2))"

subsection \<open>Phase 2: geolocation\<close>

definition phase2 ::
    "js_env \<Rightarrow> world \<Rightarrow> string \<Rightarrow> string \<Rightarrow> hook_state
       \<Rightarrow> (exn + jsval \<times> jsval list) \<times> hook_state" where
  "phase2 E W clues locationContext s =
     (let s1 = addLogEntry E LogProcessing
                 (MAGNIFYING_GLASS @ '' PHASE 2: Geolocating with Google Search grounding...'') s;
          s2 = invoke FindLocationWithGrounding s1 in
      case findLocationWithGrounding E W clues locationContext of
        Inl e \<Rightarrow> (Inl e, s2)
      | Inr (locationData, sources) \<Rightarrow>
      case get_prop locationData ''address'' of Inl e \<Rightarrow> (Inl e, s2) | Inr address \<Rightarrow>
      let s3 = addLogEntry E LogSuccess
                 (ROUND_PUSHPIN @ '' Location identified: ''
                    @ to_string E (js_or address (JStr ''Unknown''))) s2 in
      case get_prop locationData ''confidence'' of Inl e \<Rightarrow> (Inl e, s3) | Inr confidence \<Rightarrow>
      case get_prop locationData ''accuracy'' of Inl e \<Rightarrow> (Inl e, s3) | Inr accuracy \<Rightarrow>
      let s4 = addLogEntry E LogInfo
                 (DIRECT_HIT @ '' Location confidence: '' @ to_string E confidence @ ''% (''
                    @ to_string E accuracy @ '')'') s3;
          s5 = (if length sources > 0
                then addLogEntry E LogSuccess
                       (LINK_SYMBOL @ '' Found '' @ nat_to_string E (length sources)
                          @ '' grounding sources'') s4
                else s4) in
      (Inr (locationData, sources), s5))"

subsection \<open>Phase 3: satellite imagery\<close>

fun logImages :: "js_env \<Rightarrow> jsval list \<Rightarrow> hook_state \<Rightarrow> (exn + unit) \<times> hook_state" where
  "logImages E [] s = (Inr (), s)"
| "logImages E (img # imgs) s =
     (case get_prop img ''date'' of Inl e \<Rightarrow> (Inl e, s) | Inr d \<Rightarrow>
      case get_prop img ''cloudCover'' of Inl e \<Rightarrow> (Inl e, s) | Inr cloudCover \<Rightarrow>
      logImages E imgs
        (addLogEntry E LogInfo
           (CALENDAR @ '' Image from '' @ localeDate E d @ '' - '' @ to_string E cloudCover
              @ ''% cloud cover'') s))"

text \<open>
  \<^verbatim>\<open>satelliteData.imagery.slice(0, 3).forEach(...)\<close> on a truthy value: an array is
  sliced and iterated; a string has \<^verbatim>\<open>slice\<close> but no \<^verbatim>\<open>forEach\<close>; any
  other JSON value has no callable \<^verbatim>\<open>slice\<close>.
\<close>

fun logFirstImages :: "js_env \<Rightarrow> jsval \<Rightarrow> hook_state \<Rightarrow> (exn + unit) \<times> hook_state" where
  "logFirstImages E (JArr xs) s = logImages E (take 3 xs) s"
| "logFirstImages E (JStr _) s = (Inl (not_a_function ''satelliteData.imagery.slice(...).forEach''), s)"
| "logFirstImages E _ s = (Inl (not_a_function ''satelliteData.imagery.slice''), s)"

definition NO_IMAGERY :: string where
  "NO_IMAGERY = WARNING_SIGN @ '' No recent satellite imagery available for this location''"

definition phase3 ::
    "js_env \<Rightarrow> world \<Rightarrow> jsval \<Rightarrow> string \<Rightarrow> hook_state \<Rightarrow> (exn + jsval) \<times> hook_state" where
  "phase3 E W locationData claimedTimestamp s =
     (case get_prop locationData ''latitude'' of Inl e \<Rightarrow> (Inl e, s) | Inr latitude \<Rightarrow>
      if \<not> truthy latitude then (Inr JNull, s) else
      case get_prop locationData ''longitude'' of Inl e \<Rightarrow> (Inl e, s) | Inr longitude \<Rightarrow>
      if \<not> truthy longitude then (Inr JNull, s) else
      let s1 = addLogEntry E LogProcessing
                 (SATELLITE @ '' PHASE 3: Fetching Copernicus satellite imagery...'') s;
          dateStr = dateOf claimedTimestamp;
          s2 = invoke (GetSatelliteImagery latitude longitude dateStr) s1;
          satelliteData = getSatelliteImagery E W latitude longitude dateStr in
      case get_prop satelliteData ''available'' of Inl e \<Rightarrow> (Inl e, s2) | Inr available \<Rightarrow>
      if \<not> truthy available then (Inr satelliteData, addLogEntry E LogWarning NO_IMAGERY s2) else
      case get_prop satelliteData ''imagery'' of Inl e \<Rightarrow> (Inl e, s2) | Inr imagery \<Rightarrow>
      if \<not> truthy imagery then (Inr satelliteData, addLogEntry E LogWarning NO_IMAGERY s2) else
      case js_length imagery of Inl e \<Rightarrow> (Inl e, s2) | Inr len \<Rightarrow>
      let s3 = addLogEntry E LogSuccess
                 (SATELLITE @ '' Found '' @ to_string E len @ '' satellite images'') s2 in
      case logFirstImages E imagery s3 of
        (Inl e, s4) \<Rightarrow> (Inl e, s4)
      | (Inr _, s4) \<Rightarrow> (Inr satelliteData, s4))"

subsection \<open>Phase 4: time of day\<close>

fun logReasoning :: "js_env \<Rightarrow> jsval \<Rightarrow> hook_state \<Rightarrow> (exn + unit) \<times> hook_state" where
  "logReasoning E (JStr r) s =
     (Inr (), addLogEntry E LogInfo (LIGHT_BULB @ '' '' @ substring E r 0 100 @ ''...'') s)"
| "logReasoning E JUndefined s = (Inl (cannot_read ''undefined'' ''substring''), s)"
| "logReasoning E JNull s = (Inl (cannot_read ''null'' ''substring''), s)"
| "logReasoning E _ s = (Inl (not_a_function ''timeData.reasoning.substring''), s)"

definition phase4 ::
    "js_env \<Rightarrow> world \<Rightarrow> js_file \<Rightarrow> jsval \<Rightarrow> string \<Rightarrow> hook_state \<Rightarrow> (exn + jsval) \<times> hook_state" where
  "phase4 E W file locationData claimedTimestamp s =
     (let s1 = addLogEntry E LogProcessing
                 (ALARM_CLOCK @ '' PHASE 4: Analyzing shadows and lighting for time determination...'') s;
          s2 = invoke DetermineTimestamp s1 in
      case determineTimestamp E W file locationData (dateOf claimedTimestamp) of
        Inl e \<Rightarrow> (Inl e, s2)
      | Inr timeData \<Rightarrow>
      case get_prop timeData ''estimatedTimeOfDay'' of Inl e \<Rightarrow> (Inl e, s2)
      | Inr estimatedTimeOfDay \<Rightarrow>
      if truthy estimatedTimeOfDay \<and> estimatedTimeOfDay \<noteq> JStr ''unknown'' then
        (let s3 = addLogEntry E LogSuccess
                    (ALARM_CLOCK @ '' Time estimate: '' @ to_string E estimatedTimeOfDay) s2 in
         case get_prop timeData ''confidence'' of Inl e \<Rightarrow> (Inl e, s3) | Inr confidence \<Rightarrow>
         case get_prop timeData ''primaryMethod'' of Inl e \<Rightarrow> (Inl e, s3) | Inr primaryMethod \<Rightarrow>
         let s4 = addLogEntry E LogInfo
                    (BAR_CHART @ '' Time confidence: '' @ to_string E confidence @ ''% (method: ''
                       @ to_string E primaryMethod @ '')'') s3 in
         case get_prop timeData ''reasoning'' of Inl e \<Rightarrow> (Inl e, s4) | Inr reasoning \<Rightarrow>
         case logReasoning E reasoning s4 of
           (Inl e, s5) \<Rightarrow> (Inl e, s5)
         | (Inr _, s5) \<Rightarrow> (Inr timeData, s5))
      else
        (Inr timeData,
         addLogEntry E LogWarning
           (WARNING_SIGN @ '' Could not determine time from visual evidence'') s2))"

subsection \<open>Phase 5: report synthesis\<close>

definition phase5 ::
    "js_env \<Rightarrow> world \<Rightarrow> js_file \<Rightarrow> string \<Rightarrow> jsval \<Rightarrow> jsval \<Rightarrow> string \<Rightarrow> jsval list \<Rightarrow> jsval
       \<Rightarrow> hook_state \<Rightarrow> (exn + unit) \<times> hook_state" where
  "phase5 E W file clues locationData timeData claimedTimestamp sources satelliteData s =
     (let s1 = addLogEntry E LogProcessing
                 (ROBOT_FACE
                    @ '' PHASE 5: Generating final forensic report with Gemini Pro + Thinking Mode...'') s;
          s2 = invoke GenerateVerificationReport s1 in
      case generateVerificationReport E W file clues locationData timeData claimedTimestamp
             sources satelliteData of
        Inl e \<Rightarrow> (Inl e, s2)
      | Inr finalReport \<Rightarrow>
      let s3 = s2\<lparr>report := Some finalReport\<rparr>;
          s4 = addLogEntry E LogSuccess
                 (CHECK_MARK @ '' Verification complete! Report generated.'') s3 in
      case get_prop finalReport ''verdict'' of Inl e \<Rightarrow> (Inl e, s4) | Inr verdict \<Rightarrow>
      case get_prop finalReport ''confidenceScore'' of Inl e \<Rightarrow> (Inl e, s4)
      | Inr confidenceScore \<Rightarrow>
      (Inr (),
       addLogEntry E LogInfo
         (CLIPBOARD @ '' Verdict: '' @ to_string E verdict @ '' ('' @ to_string E confidenceScore
            @ ''% confidence)'') s4))"

subsection \<open>\<^verbatim>\<open>runVerification\<close>\<close>

definition preamble :: "js_env \<Rightarrow> string \<Rightarrow> string \<Rightarrow> hook_state \<Rightarrow> hook_state" where
  "preamble E claimedTimestamp locationContext s =
     (let s1 = addLogEntry E LogInfo (ROCKET @ '' Starting forensic analysis...'') s;
          s2 = addLogEntry E LogInfo (ROUND_PUSHPIN @ '' Known region: '' @ locationContext) s1 in
      if claimedTimestamp \<noteq> []
      then addLogEntry E LogInfo (ALARM_CLOCK @ '' Mode: VERIFICATION of claimed timestamp'') s2
      else addLogEntry E LogInfo
             (ALARM_CLOCK @ '' Mode: DETERMINATION - will estimate timestamp from visual evidence'')
             s2)"

text \<open>
  The \<^verbatim>\<open>try\<close> block runs the phases in sequence; an exception of a phase ends it.
  The sequence is cut after phase 3 and after phase 4, so that the state in which a later
  phase starts can be named.
\<close>

definition phases_1_to_3 ::
    "js_env \<Rightarrow> world \<Rightarrow> js_file \<Rightarrow> string \<Rightarrow> string \<Rightarrow> hook_state
       \<Rightarrow> (exn + string \<times> jsval \<times> jsval list \<times> jsval) \<times> hook_state" where
  "phases_1_to_3 E W file claimedTimestamp locationContext s =
     (case phase1 E W file locationContext (preamble E claimedTimestamp locationContext s) of
        (Inl e, s') \<Rightarrow> (Inl e, s')
      | (Inr clues, s') \<Rightarrow>
      case phase2 E W clues locationContext s' of
        (Inl e, s') \<Rightarrow> (Inl e, s')
      | (Inr (locationData, sources), s') \<Rightarrow>
      case phase3 E W locationData claimedTimestamp s' of
        (Inl e, s') \<Rightarrow> (Inl e, s')
      | (Inr satelliteData, s') \<Rightarrow> (Inr (clues, locationData, sources, satelliteData), s'))"

definition phases_1_to_4 ::
    "js_env \<Rightarrow> world \<Rightarrow> js_file \<Rightarrow> string \<Rightarrow> string \<Rightarrow> hook_state
       \<Rightarrow> (exn + string \<times> jsval \<times> jsval list \<times> jsval \<times> jsval) \<times> hook_state" where
  "phases_1_to_4 E W file claimedTimestamp locationContext s =
     (case phases_1_to_3 E W file claimedTimestamp locationContext s of
        (Inl e, s') \<Rightarrow> (Inl e, s')
      | (Inr (clues, locationData, sources, satelliteData), s') \<Rightarrow>
      case phase4 E W file locationData claimedTimestamp s' of
        (Inl e, s') \<Rightarrow> (Inl e, s')
      | (Inr timeData, s') \<Rightarrow> (Inr (clues, locationData, sources, satelliteData, timeData), s'))"

definition tryBody ::
    "js_env \<Rightarrow> world \<Rightarrow> js_file \<Rightarrow> string \<Rightarrow> string \<Rightarrow> hook_state \<Rightarrow> (exn + unit) \<times> hook_state" where
  "tryBody E W file claimedTimestamp locationContext s =
     (case phases_1_to_4 E W file claimedTimestamp locationContext s of
        (Inl e, s') \<Rightarrow> (Inl e, s')
      | (Inr (clues, locationData, sources, satelliteData, timeData), s') \<Rightarrow>
          phase5 E W file clues locationData timeData claimedTimestamp sources satelliteData s')"

definition errorMessageOf :: "exn \<Rightarrow> string" where
  \<comment> \<open>\<^verbatim>\<open>e instanceof Error ? e.message : 'An unknown error occurred.'\<close>\<close>
  "errorMessageOf e = (case e of Err m _ _ \<Rightarrow> m | NonError \<Rightarrow> ''An unknown error occurred.'')"

text \<open>
  The result is the settlement of the promise (\<open>Inl\<close>: rejected) and the final state of
  the hook. The service is constructed before the \<^verbatim>\<open>try\<close> block, so a failure
  of the constructor rejects the promise and skips both handlers. \<open>fresh\<close> is the state
  after the four resetting \<^verbatim>\<open>set...\<close> calls; it also clears \<open>invoked\<close>, which
  thus lists the service calls of the current run.
\<close>

definition fresh :: "hook_state \<Rightarrow> hook_state" where
  "fresh s = s\<lparr>isLoading := True, log := [], report := None, error := None, invoked := []\<rparr>"

definition runVerification ::
    "js_env \<Rightarrow> world \<Rightarrow> js_file \<Rightarrow> string \<Rightarrow> string \<Rightarrow> hook_state \<Rightarrow> (exn + unit) \<times> hook_state" where
  "runVerification E W file claimedTimestamp locationContext s =
     (case new_GeminiService E of
        Inl e \<Rightarrow> (Inl e, fresh s)
      | Inr geminiService \<Rightarrow>
          (case tryBody E W file claimedTimestamp locationContext (fresh s) of
             (Inr _, s') \<Rightarrow> (Inr (), s'\<lparr>isLoading := False\<rparr>)
           | (Inl e, s') \<Rightarrow>
               (let errorMessage = errorMessageOf e;
                    s1 = s'\<lparr>error := Some errorMessage\<rparr>;
                    s2 = addLogEntry E LogError
                           (CROSS_MARK @ '' Verification failed: '' @ errorMessage) s1 in
                (Inr (), s2\<lparr>isLoading := False\<rparr>))))"

section \<open>The proxy server\<close>

record proxy_config =
  COPERNICUS_CLIENT_ID :: "string option"
  COPERNICUS_CLIENT_SECRET :: "string option"

text \<open>
  The upstream identity provider and catalogue. A token request is identified by its form
  parameters, a catalogue request by its URL and \<^verbatim>\<open>Authorization\<close> header.
\<close>

record upstream =
  token_fetch :: "(string \<times> string) list \<Rightarrow> exn + http_response"
  catalog_fetch :: "string \<Rightarrow> string \<Rightarrow> exn + http_response"

datatype upstream_call =
    TokenRequest "(string \<times> string) list"
  | CatalogRequest string string

text \<open>The query parameters of a search request; \<open>None\<close> is a parameter that is missing.\<close>

record search_query =
  lat :: "string option"
  lon :: "string option"
  startDate :: "string option"
  endDate :: "string option"
  limit :: "string option"

record http_reply =
  res_status :: nat
  res_body :: jsval

text \<open>
  \<^verbatim>\<open>res.json(v)\<close> sends the JSON text of \<open>v\<close>: a property whose value is
  \<^verbatim>\<open>undefined\<close> is left out, an \<^verbatim>\<open>undefined\<close> array element becomes
  \<^verbatim>\<open>null\<close>. \<open>wire v\<close> is the value a client reads back.
\<close>

fun wire :: "jsval \<Rightarrow> jsval"
  and wire_props :: "(string \<times> jsval) list \<Rightarrow> (string \<times> jsval) list"
  and wire_elems :: "jsval list \<Rightarrow> jsval list" where
  "wire (JObj kvs) = JObj (wire_props kvs)"
| "wire (JArr xs) = JArr (wire_elems xs)"
| "wire v = v"
| "wire_props [] = []"
| "wire_props ((k, v) # kvs) =
     (if v = JUndefined then wire_props kvs else (k, wire v) # wire_props kvs)"
| "wire_elems [] = []"
| "wire_elems (x # xs) = (if x = JUndefined then JNull else wire x) # wire_elems xs"

definition exn_message :: "exn \<Rightarrow> jsval" where
  "exn_message e = (case e of Err m _ _ \<Rightarrow> JStr m | NonError \<Rightarrow> JUndefined)"

definition exn_code :: "exn \<Rightarrow> string option" where
  "exn_code e = (case e of Err _ c _ \<Rightarrow> c | NonError \<Rightarrow> None)"

definition exn_cause_code :: "exn \<Rightarrow> string option" where
  "exn_cause_code e = (case e of Err _ _ cc \<Rightarrow> cc | NonError \<Rightarrow> None)"

definition NETWORK_HINT :: string where
  "NETWORK_HINT =
     ''Network error: Unable to reach Copernicus servers. Check your internet connection.''"

definition form_value :: "string option \<Rightarrow> string" where
  \<comment> \<open>\<^verbatim>\<open>URLSearchParams\<close> converts each value to a string, \<^verbatim>\<open>undefined\<close> included\<close>
  "form_value v = (case v of None \<Rightarrow> ''undefined'' | Some t \<Rightarrow> t)"

definition tokenParams :: "proxy_config \<Rightarrow> (string \<times> string) list" where
  "tokenParams C =
     [(''grant_type'', ''client_credentials''),
      (''client_id'', form_value (COPERNICUS_CLIENT_ID C)),
      (''client_secret'', form_value (COPERNICUS_CLIENT_SECRET C))]"

subsection \<open>\<^verbatim>\<open>POST /api/satellite/auth\<close>\<close>



subsection \<open>\<^verbatim>\<open>GET /api/satellite/search\<close>\<close>

definition CATALOGUE :: string where
  "CATALOGUE = ''https://catalogue.dataspace.copernicus.eu/odata/v1/Products''"

definition catalogUrl :: "string \<Rightarrow> string \<Rightarrow> string \<Rightarrow> string \<Rightarrow> string \<Rightarrow> string" where
  "catalogUrl lo la startDateStr endDateStr topN =
     CATALOGUE @ ''?$filter=Collection/Name eq '' @ [CHR 0x27] @ ''SENTINEL-2'' @ [CHR 0x27]
       @ '' and OData.CSC.Intersects(area=geography'' @ [CHR 0x27] @ ''SRID=4326;POINT('' @ lo
       @ '' '' @ la @ '')'' @ [CHR 0x27] @ '') and ContentDate/Start gt '' @ startDateStr
       @ '' and ContentDate/Start lt '' @ endDateStr @ ''&$orderby=ContentDate/Start desc&$top=''
       @ topN"

definition mapItem :: "js_env \<Rightarrow> jsval \<Rightarrow> exn + jsval" where
  "mapItem E item =
     (case get_prop item ''Id'' of Inl e \<Rightarrow> Inl e | Inr itemId \<Rightarrow>
      case get_prop item ''Name'' of Inl e \<Rightarrow> Inl e | Inr itemName \<Rightarrow>
      case get_prop item ''ContentDate'' of Inl e \<Rightarrow> Inl e | Inr contentDate \<Rightarrow>
      case get_prop contentDate ''Start'' of Inl e \<Rightarrow> Inl e | Inr contentStart \<Rightarrow>
      case get_prop item ''CloudCover'' of Inl e \<Rightarrow> Inl e | Inr cloudCover \<Rightarrow>
      case get_prop item ''S3Path'' of Inl e \<Rightarrow> Inl e | Inr s3Path \<Rightarrow>
      Inr (JObj [(''id'', itemId),
                 (''name'', itemName),
                 (''date'', contentStart),
                 (''cloudCover'', js_or cloudCover (JNum 0)),
                 (''thumbnail'',
                    if truthy s3Path
                    then JStr (CATALOGUE @ ''('' @ to_string E itemId @ '')/Thumbnail/$value'')
                    else JNull)]))"

fun mapItems :: "js_env \<Rightarrow> jsval list \<Rightarrow> exn + jsval list" where
  "mapItems E [] = Inr []"
| "mapItems E (item # items) =
     (case mapItem E item of Inl e \<Rightarrow> Inl e | Inr x \<Rightarrow>
      case mapItems E items of Inl e \<Rightarrow> Inl e | Inr xs \<Rightarrow> Inr (x # xs))"

text \<open>\<^verbatim>\<open>searchData.value.map(...)\<close>: only an array has a callable \<^verbatim>\<open>map\<close>.\<close>

fun js_map :: "js_env \<Rightarrow> jsval \<Rightarrow> exn + jsval list" where
  "js_map E (JArr xs) = mapItems E xs"
| "js_map E JUndefined = Inl (cannot_read ''undefined'' ''map'')"
| "js_map E JNull = Inl (cannot_read ''null'' ''map'')"
| "js_map E _ = Inl (not_a_function ''searchData.value.map'')"

definition has_results :: "js_env \<Rightarrow> jsval \<Rightarrow> exn + bool" where
  \<comment> \<open>\<^verbatim>\<open>searchData.value && searchData.value.length > 0\<close>\<close>
  "has_results E v =
     (if \<not> truthy v then Inr False
      else case js_length v of Inl e \<Rightarrow> Inl e | Inr n \<Rightarrow> Inr (gt_zero E n))"

definition float_json :: "real option \<Rightarrow> jsval" where
  \<comment> \<open>a \<^verbatim>\<open>parseFloat\<close> result in a JSON body: \<^verbatim>\<open>NaN\<close> is written as \<^verbatim>\<open>null\<close>\<close>
  "float_json x = (case x of None \<Rightarrow> JNull | Some r \<Rightarrow> JNum r)"

definition THIRTY_DAYS :: int where
  "THIRTY_DAYS = 30 * 24 * 60 * 60 * 1000"

text \<open>
  The handler's \<^verbatim>\<open>try\<close> block, in the order of the source: the parameter check,
  the token request, the date window, the catalogue request, the reply.
\<close>

definition missing_parameters :: http_reply where
  "missing_parameters =
     \<lparr>res_status = 400,
      res_body = wire (JObj [(''error'', JStr ''Missing required parameters''),
                             (''message'', JStr ''Latitude and longitude are required'')])\<rparr>"

definition search_token :: "upstream \<Rightarrow> proxy_config \<Rightarrow> exn + jsval" where
  "search_token U C =
     (case token_fetch U (tokenParams C) of Inl e \<Rightarrow> Inl e | Inr authResponse \<Rightarrow>
      if \<not> ok authResponse then Inl (Error ''Authentication failed'') else
      case json authResponse of Inl e \<Rightarrow> Inl e | Inr authData \<Rightarrow>
      get_prop authData ''access_token'')"

definition search_window :: "js_env \<Rightarrow> search_query \<Rightarrow> exn + string \<times> string" where
  "search_window E q =
     (let endDateTime = (if str_truthy (endDate q) then dateParse E (the (endDate q))
                         else Some (now E));
          startDateTime = (if str_truthy (startDate q) then dateParse E (the (startDate q))
                           else map_option (\<lambda>t. t - THIRTY_DAYS) endDateTime) in
      case isoString E startDateTime of Inl e \<Rightarrow> Inl e | Inr isoStart \<Rightarrow>
      case isoString E endDateTime of Inl e \<Rightarrow> Inl e | Inr isoEnd \<Rightarrow>
      Inr (split_first CHR ''.'' isoStart @ ''Z'', split_first CHR ''.'' isoEnd @ ''Z''))"

definition search_result :: "jsval \<Rightarrow> jsval list \<Rightarrow> jsval \<Rightarrow> jsval \<Rightarrow> http_reply" where
  \<comment> \<open>the two \<^verbatim>\<open>res.json\<close> calls of the handler\<close>
  "search_result available imagery location searchDate =
     \<lparr>res_status = 200,
      res_body = wire (JObj [(''available'', available),
                             (''imagery'', JArr imagery),
                             (''location'', location),
                             (''searchDate'', searchDate),
                             (''count'', JNum (of_nat (length imagery)))])\<rparr>"

definition search_reply ::
    "js_env \<Rightarrow> search_query \<Rightarrow> string \<Rightarrow> http_response \<Rightarrow> exn + http_reply" where
  "search_reply E q endDateStr searchResponse =
     (let location = JObj [(''lat'', float_json (parseFloat E (the (lat q)))),
                           (''lon'', float_json (parseFloat E (the (lon q))))];
          searchDate = JStr (split_first CHR ''T'' endDateStr) in
      if \<not> ok searchResponse then
        Inl (Error (''Search failed: '' @ nat_to_string E (status searchResponse) @ '' ''
                      @ statusText searchResponse))
      else
      case json searchResponse of Inl e \<Rightarrow> Inl e | Inr searchData \<Rightarrow>
      case get_prop searchData ''value'' of Inl e \<Rightarrow> Inl e | Inr v \<Rightarrow>
      case has_results E v of Inl e \<Rightarrow> Inl e | Inr nonEmpty \<Rightarrow>
      if nonEmpty then
        (case js_map E v of Inl e \<Rightarrow> Inl e
         | Inr imagery \<Rightarrow> Inr (search_result (JBool True) imagery location searchDate))
      else Inr (search_result (JBool False) [] location searchDate))"

definition search_try ::
    "js_env \<Rightarrow> proxy_config \<Rightarrow> upstream \<Rightarrow> search_query
       \<Rightarrow> (exn + http_reply) \<times> upstream_call list" where
  "search_try E C U q =
     (if \<not> str_truthy (lat q) \<or> \<not> str_truthy (lon q) then (Inr missing_parameters, [])
      else
      let calls = [TokenRequest (tokenParams C)] in
      case search_token U C of Inl e \<Rightarrow> (Inl e, calls) | Inr token \<Rightarrow>
      case search_window E q of Inl e \<Rightarrow> (Inl e, calls) | Inr (startDateStr, endDateStr) \<Rightarrow>
      let url = catalogUrl (the (lon q)) (the (lat q)) startDateStr endDateStr
                  (case limit q of None \<Rightarrow> nat_to_string E 5 | Some l \<Rightarrow> l);
          authorization = ''Bearer '' @ to_string E token;
          calls' = calls @ [CatalogRequest url authorization] in
      case catalog_fetch U url authorization of Inl e \<Rightarrow> (Inl e, calls')
      | Inr searchResponse \<Rightarrow> (search_reply E q endDateStr searchResponse, calls'))"

definition search_handler ::
    "js_env \<Rightarrow> proxy_config \<Rightarrow> upstream \<Rightarrow> search_query \<Rightarrow> http_reply \<times> upstream_call list" where
  "search_handler E C U q =
     (case search_try E C U q of
        (Inr reply, calls) \<Rightarrow> (reply, calls)
      | (Inl err, calls) \<Rightarrow>
          (\<lparr>res_status = 500,
            res_body = wire (JObj
              [(''error'', JStr ''Search failed''),
               (''message'', exn_message err),
               (''details'',
                  if exn_cause_code err = Some ''EAI_AGAIN'' \<or> exn_code err = Some ''EAI_AGAIN''
                  then JStr NETWORK_HINT else exn_message err)])\<rparr>,
           calls))"

section \<open>Sample inputs\<close>

text \<open>
  Concrete runtimes, worlds and requests on which the theorems below are instantiated.
  The runtime fragment parses two JSON texts, prints the few numbers the sample runs print,
  and trims and cuts texts of the ASCII range.
\<close>

definition report_json :: string where
  \<open>report_json = ''{"verdict": "Verified", "confidenceScore": 90}''\<close>

definition equator_json :: string where
  \<open>equator_json = ''{"address": "Null Island", "latitude": 0, "longitude": 10}''\<close>

definition equator_location :: jsval where
  "equator_location =
     JObj [(''address'', JStr ''Null Island''), (''latitude'', JNum 0), (''longitude'', JNum 10)]"

definition is_space :: "char \<Rightarrow> bool" where
  \<comment> \<open>the white space and line terminators of the ASCII range\<close>
  "is_space c = (c \<in> set [CHR 0x09, CHR 0x0A, CHR 0x0B, CHR 0x0C, CHR 0x0D, CHR '' ''])"

definition ascii_trim :: "string \<Rightarrow> string" where
  \<comment> \<open>\<^verbatim>\<open>trim\<close> on texts of the ASCII range\<close>
  "ascii_trim s = rev (dropWhile is_space (rev (dropWhile is_space s)))"

definition ascii_substring :: "string \<Rightarrow> nat \<Rightarrow> nat \<Rightarrow> string" where
  \<comment> \<open>\<^verbatim>\<open>substring\<close> on texts of the ASCII range, for \<open>i \<le> j\<close>\<close>
  "ascii_substring s i j = take (j - i) (drop i s)"

definition sample_env :: js_env where
  "sample_env =
     \<lparr>JSON_parse = (\<lambda>s. if s = report_json
                           then Some (JObj [(''verdict'', JStr ''Verified''),
                                            (''confidenceScore'', JNum 90)])
                           else if s = equator_json then Some equator_location
                           else None),
      trim = ascii_trim,
      substring = ascii_substring,
      numToString = (\<lambda>r. if r = 0 then ''0'' else if r = 5 then ''5'' else if r = 10 then ''10''
                           else if r = 90 then ''90'' else if r = 401 then ''401'' else ''31.5''),
      strToNumber = (\<lambda>s. None),
      parseFloat = (\<lambda>s. if s = ''31.5'' then Some 31.5 else if s = ''34.45'' then Some 34.45
                          else None),
      dateParse = (\<lambda>s. if s = ''2024-10-23'' then Some 1729641600000
                        else if s = ''2024-10-01'' then Some 1727740800000 else None),
      now = 1729641600000,
      toISOString = (\<lambda>t. if t = 1729641600000 then ''2024-10-23T00:00:00.000Z''
                           else if t = 1727740800000 then ''2024-10-01T00:00:00.000Z''
                           else if t = 1727049600000 then ''2024-09-23T00:00:00.000Z''
                           else if t = 1725148800000 then ''2024-09-01T00:00:00.000Z''
                           else ''1970-01-01T00:00:00.000Z''),
      minusDays = (\<lambda>t n. t - int n * 86400000),
      localeDate = (\<lambda>v. ''10/23/2024''),
      clock = (\<lambda>n. ''2024-10-23T00:00:00.000Z''),
      API_KEY = Some ''sample-key'',
      BACKEND_API_URL = ''http://localhost:3001''\<rparr>"

definition prose_response :: gen_response where
  "prose_response = \<lparr>resp_text = ''I cannot answer in JSON.'', groundingChunks = []\<rparr>"

definition offline_world :: world where
  \<comment> \<open>every completion is prose, and the proxy cannot be reached\<close>
  "offline_world =
     \<lparr>read_for_clues = Inr ''QUJD'', read_for_time = Inr ''QUJD'', read_for_report = Inr ''QUJD'',
      generateContent = (\<lambda>req. Inr prose_response),
      fetch = (\<lambda>url. Inl (Err ''fetch failed'' None None))\<rparr>"

definition verified_world :: world where
  \<comment> \<open>as \<open>offline_world\<close>, but the report request is answered with JSON\<close>
  "verified_world =
     offline_world\<lparr>generateContent :=
       (\<lambda>req. case req of
                 ReportPrompt _ _ _ _ _ _ _ _ \<Rightarrow> Inr \<lparr>resp_text = report_json, groundingChunks = []\<rparr>
               | _ \<Rightarrow> Inr prose_response)\<rparr>"

definition equator_world :: world where
  \<comment> \<open>as \<open>offline_world\<close>, but the structuring request is answered with a location
      on the equator\<close>
  "equator_world =
     offline_world\<lparr>generateContent :=
       (\<lambda>req. case req of
                 StructuringPrompt _ \<Rightarrow> Inr \<lparr>resp_text = equator_json, groundingChunks = []\<rparr>
               | _ \<Rightarrow> Inr prose_response)\<rparr>"

definition server_error :: http_response where
  "server_error =
     \<lparr>ok = False, status = 500, statusText = ''Internal Server Error'',
      json = Inr (JObj [(''error'', JStr ''Search failed''),
                        (''message'', JStr ''Authentication failed'')])\<rparr>"

definition proxy_error_world :: world where
  \<comment> \<open>as \<open>offline_world\<close>, but the proxy answers every search with status 500\<close>
  "proxy_error_world = offline_world\<lparr>fetch := (\<lambda>url. Inr server_error)\<rparr>"

definition html_response :: http_response where
  \<comment> \<open>status 200 with a body that is not JSON, so that \<^verbatim>\<open>json()\<close> rejects\<close>
  "html_response =
     \<lparr>ok = True, status = 200, statusText = ''OK'',
      json = Inl (Err ''Unexpected token < in JSON at position 0'' None None)\<rparr>"

definition bad_body_world :: world where
  \<comment> \<open>as \<open>offline_world\<close>, but the proxy answers every search with \<open>html_response\<close>\<close>
  "bad_body_world = offline_world\<lparr>fetch := (\<lambda>url. Inr html_response)\<rparr>"

definition sample_file :: js_file where
  "sample_file = \<lparr>mimeType = ''image/jpeg''\<rparr>"

definition idle :: hook_state where
  "idle = \<lparr>isLoading = False, log = [], report = None, error = None, invoked = []\<rparr>"


definition sample_credentials :: proxy_config where
  "sample_credentials =
     \<lparr>COPERNICUS_CLIENT_ID = Some ''sample-id'', COPERNICUS_CLIENT_SECRET = Some ''sample-secret''\<rparr>"



definition empty_catalogue :: upstream where
  \<comment> \<open>a token is granted and the catalogue has no matching product\<close>
  "empty_catalogue =
     \<lparr>token_fetch = (\<lambda>params. Inr \<lparr>ok = True, status = 200, statusText = ''OK'',
                                     json = Inr (JObj [(''access_token'', JStr ''token'')])\<rparr>),
      catalog_fetch = (\<lambda>url authorization.
                         Inr \<lparr>ok = True, status = 200, statusText = ''OK'',
                              json = Inr (JObj [(''value'', JArr [])])\<rparr>)\<rparr>"

definition gaza_query :: search_query where
  "gaza_query =
     \<lparr>lat = Some ''31.5'', lon = Some ''34.45'', startDate = None, endDate = None, limit = None\<rparr>"

definition no_lat_query :: search_query where
  "no_lat_query =
     \<lparr>lat = None, lon = Some ''34.45'', startDate = None, endDate = None, limit = None\<rparr>"

section \<open>Auxiliary predicates for the proofs\<close>

text \<open>
  What a phase may change: \<open>frame\<close> leaves \<open>error\<close> and \<open>isLoading\<close> alone and only
  extends the list of service calls; \<open>quiet\<close> leaves \<open>report\<close> alone as well.
\<close>

definition frame :: "hook_state \<Rightarrow> hook_state \<Rightarrow> bool" where
  "frame s s' \<longleftrightarrow>
     error s' = error s \<and> isLoading s' = isLoading s \<and> (\<exists>cs. invoked s' = invoked s @ cs)"

definition quiet :: "hook_state \<Rightarrow> hook_state \<Rightarrow> bool" where
  "quiet s s' \<longleftrightarrow> frame s s' \<and> report s' = report s"

section \<open>Frame properties of the phases\<close>

lemma addLogEntry_simps [simp]:
  "invoked (addLogEntry E t m s) = invoked s"
  "report (addLogEntry E t m s) = report s"
  "error (addLogEntry E t m s) = error s"
  "isLoading (addLogEntry E t m s) = isLoading s"
  "log (addLogEntry E t m s) =
     log s @ [\<lparr>type = t, message = m, timestamp = clock E (length (log s))\<rparr>]"
  by (simp_all add: addLogEntry_def)

lemma invoke_simps [simp]:
  "invoked (invoke c s) = invoked s @ [c]"
  "report (invoke c s) = report s"
  "error (invoke c s) = error s"
  "isLoading (invoke c s) = isLoading s"
  "log (invoke c s) = log s"
  by (simp_all add: invoke_def)

lemma quiet_refl [simp]: "quiet s s"
  by (simp add: quiet_def frame_def)

lemma quiet_trans: "quiet s s' \<Longrightarrow> quiet s' s'' \<Longrightarrow> quiet s s''"
  by (auto simp: quiet_def frame_def)

lemma frame_trans: "frame s s' \<Longrightarrow> frame s' s'' \<Longrightarrow> frame s s''"
  by (auto simp: frame_def)

lemma quiet_frame: "quiet s s' \<Longrightarrow> frame s s'"
  by (simp add: quiet_def)

lemma quiet_addLog_left: "quiet (addLogEntry E t m s) s' \<Longrightarrow> quiet s s'"
  by (auto simp: quiet_def frame_def)

lemma quiet_invoke_left: "quiet (invoke c s) s' \<Longrightarrow> quiet s s'"
  by (auto simp: quiet_def frame_def)

lemma quiet_addLog [simp]: "quiet s (addLogEntry E t m s)"
  by (auto simp: quiet_def frame_def)

lemma frame_invoked: "frame s s' \<Longrightarrow> c \<in> set (invoked s) \<Longrightarrow> c \<in> set (invoked s')"
  by (auto simp: frame_def)

lemma phase1_quiet: "phase1 E W f ctx s = (r, s') \<Longrightarrow> quiet s s'"
  by (auto simp: phase1_def Let_def quiet_def frame_def split: sum.splits)

lemma phase2_quiet: "phase2 E W clues ctx s = (r, s') \<Longrightarrow> quiet s s'"
  by (auto simp: phase2_def Let_def quiet_def frame_def split: sum.splits prod.splits if_splits)

lemma logImages_quiet: "logImages E xs s = (r, s') \<Longrightarrow> quiet s s'"
proof (induction xs arbitrary: s)
  case Nil
  then show ?case by simp
next
  case (Cons img imgs)
  then show ?case
    by (auto split: sum.splits dest!: Cons.IH quiet_addLog_left)
qed

lemma logFirstImages_quiet: "logFirstImages E v s = (r, s') \<Longrightarrow> quiet s s'"
  by (cases v) (auto dest: logImages_quiet)

lemma phase3_quiet: "phase3 E W loc ts s = (r, s') \<Longrightarrow> quiet s s'"
  by (auto simp: phase3_def Let_def split: sum.splits prod.splits if_splits
      dest!: logFirstImages_quiet quiet_addLog_left quiet_invoke_left)
     (auto simp: quiet_def frame_def)

lemma logReasoning_quiet: "logReasoning E v s = (r, s') \<Longrightarrow> quiet s s'"
  by (cases v) auto

lemma phase4_quiet: "phase4 E W f loc ts s = (r, s') \<Longrightarrow> quiet s s'"
  by (auto simp: phase4_def Let_def split: sum.splits prod.splits if_splits
      dest!: logReasoning_quiet quiet_addLog_left quiet_invoke_left)
     (auto simp: quiet_def frame_def)

lemma phase5_frame:
  "phase5 E W f clues loc td ts srcs sat s = (r, s') \<Longrightarrow> frame s s'"
  by (auto simp: phase5_def Let_def frame_def split: sum.splits prod.splits if_splits)

lemma preamble_quiet: "quiet s (preamble E ts ctx s)"
  by (simp add: preamble_def Let_def quiet_def frame_def)

lemma phases_1_to_3_quiet:
  assumes "phases_1_to_3 E W f ts ctx s = (r, s')"
  shows "quiet s s'"
proof -
  obtain r1 s1 where p1: "phase1 E W f ctx (preamble E ts ctx s) = (r1, s1)"
    by (cases "phase1 E W f ctx (preamble E ts ctx s)")
  have q1: "quiet s s1"
    using quiet_trans[OF preamble_quiet phase1_quiet[OF p1]] .
  show ?thesis
  proof (cases r1)
    case (Inl e)
    with assms p1 q1 show ?thesis by (simp add: phases_1_to_3_def)
  next
    case (Inr clues)
    obtain r2 s2 where p2: "phase2 E W clues ctx s1 = (r2, s2)"
      by (cases "phase2 E W clues ctx s1")
    have q2: "quiet s s2"
      using quiet_trans[OF q1 phase2_quiet[OF p2]] .
    show ?thesis
    proof (cases r2)
      case (Inl e)
      with assms p1 p2 q2 Inr show ?thesis by (simp add: phases_1_to_3_def)
    next
      case r2: (Inr ls)
      obtain loc srcs where ls: "ls = (loc, srcs)" by (cases ls)
      obtain r3 s3 where p3: "phase3 E W loc ts s2 = (r3, s3)"
        by (cases "phase3 E W loc ts s2")
      have q3: "quiet s s3"
        using quiet_trans[OF q2 phase3_quiet[OF p3]] .
      from assms p1 p2 p3 Inr r2 ls have "s' = s3"
        by (auto simp: phases_1_to_3_def split: sum.splits)
      with q3 show ?thesis by simp
    qed
  qed
qed

lemma phases_1_to_4_quiet:
  "phases_1_to_4 E W f ts ctx s = (r, s') \<Longrightarrow> quiet s s'"
  unfolding phases_1_to_4_def
  by (auto split: sum.splits prod.splits dest!: phases_1_to_3_quiet phase4_quiet)
     (blast intro: quiet_trans)+

lemma tryBody_frame: "tryBody E W f ts ctx s = (r, s') \<Longrightarrow> frame s s'"
  unfolding tryBody_def
  by (auto split: sum.splits prod.splits dest!: phases_1_to_4_quiet phase5_frame quiet_frame)
     (blast intro: frame_trans)+

section \<open>The fallbacks of the service\<close>

lemma try_fails:
  assumes "\<And>u. case fetch W u of Inl x \<Rightarrow> True | Inr r \<Rightarrow> \<not> ok r \<or> isl (json r)"
  shows "\<exists>e. getSatelliteImagery_try E W la lo d = Inl e"
proof -
  have h: "isl (json r)" if "fetch W u = Inr r" and "ok r" for u r
    using assms[of u] that by simp
  show ?thesis
    by (auto simp: getSatelliteImagery_try_def Let_def isoString_def
        split: sum.splits option.splits if_splits dest: h)
qed

lemma findLocation_fallback:
  assumes "generateContent W (GroundingPrompt clues ctx) = Inr r1"
    and "generateContent W (StructuringPrompt (resp_text r1)) = Inr r2"
    and "JSON_parse E (clean_json E (resp_text r2)) = None"
  shows "findLocationWithGrounding E W clues ctx =
           Inr (location_fallback (resp_text r1),
                map source_obj (List.map_filter id (groundingChunks r1)))"
  using assms by (simp add: findLocationWithGrounding_def Let_def)

lemma location_fallback_props:
  "get_prop (location_fallback t) ''address'' = Inr (JStr t)"
  "get_prop (location_fallback t) ''latitude'' = Inr (JNum 31.5)"
  "get_prop (location_fallback t) ''longitude'' = Inr (JNum 34.45)"
  "get_prop (location_fallback t) ''confidence'' = Inr (JNum 30)"
  "get_prop (location_fallback t) ''accuracy'' = Inr (JStr ''region'')"
  by (simp_all add: location_fallback_def)

lemma time_fallback_props:
  "get_prop (time_fallback t) ''estimatedTimeOfDay'' = Inr (JStr ''unknown'')"
  "get_prop (time_fallback t) ''confidence'' = Inr (JNum 0)"
  "get_prop (time_fallback t) ''primaryMethod'' = Inr (JStr ''error'')"
  by (simp_all add: time_fallback_def)

lemma determineTimestamp_fallback:
  assumes "read_for_time W = Inr b"
    and "get_prop loc ''address'' = Inr a"
    and "get_prop loc ''latitude'' = Inr la"
    and "get_prop loc ''longitude'' = Inr lo"
    and "generateContent W (TimestampPrompt (mimeType f) b a la lo d) = Inr r"
    and "JSON_parse E (clean_json E (resp_text r)) = None"
  shows "determineTimestamp E W f loc d = Inr (time_fallback (resp_text r))"
  using assms by (simp add: determineTimestamp_def)

lemma phase5_parse_failure:
  assumes "read_for_report W = Inr b"
    and "get_prop td ''estimatedTimeOfDay'' = Inr x"
    and "generateContent W (ReportPrompt (mimeType f) b clues loc td ts srcs sat) = Inr r"
    and "JSON_parse E (clean_json E (resp_text r)) = None"
  shows "generateVerificationReport E W f clues loc td ts srcs sat
           = Inl (Error ''AI returned a report in an invalid format.'')"
  using assms by (simp add: generateVerificationReport_def invalid_report_format_def)

section \<open>Runs of the hook\<close>

lemma API_KEY_ok: "str_truthy (API_KEY E) \<Longrightarrow> new_GeminiService E = Inr ()"
  by (simp add: new_GeminiService_def)

lemma run_caught:
  assumes "str_truthy (API_KEY E)"
    and "tryBody E W f ts ctx (fresh s) = (Inl e, s')"
  shows "runVerification E W f ts ctx s =
           (Inr (),
            (addLogEntry E LogError (CROSS_MARK @ '' Verification failed: '' @ errorMessageOf e)
               (s'\<lparr>error := Some (errorMessageOf e)\<rparr>))\<lparr>isLoading := False\<rparr>)"
  using assms by (simp add: runVerification_def API_KEY_ok Let_def)

lemma run_completed:
  assumes "str_truthy (API_KEY E)"
    and "tryBody E W f ts ctx (fresh s) = (Inr u, s')"
  shows "runVerification E W f ts ctx s = (Inr (), s'\<lparr>isLoading := False\<rparr>)"
  using assms by (simp add: runVerification_def API_KEY_ok)

lemma run_invoked:
  assumes "str_truthy (API_KEY E)"
    and "tryBody E W f ts ctx (fresh s) = (r, s')"
  shows "invoked (snd (runVerification E W f ts ctx s)) = invoked s'"
  using assms by (cases r) (simp_all add: run_caught run_completed addLogEntry_def)

lemma phase5_invokes:
  "GenerateVerificationReport \<in> set (invoked (snd (phase5 E W f clues loc td ts srcs sat s)))"
  by (auto simp: phase5_def Let_def split: sum.splits)

lemma phase5_rejects:
  assumes "generateVerificationReport E W f clues loc td ts srcs sat = Inl e"
  shows "\<exists>s'. phase5 E W f clues loc td ts srcs sat s = (Inl e, s') \<and> report s' = report s"
  using assms by (simp add: phase5_def Let_def)

lemma phase5_completes:
  assumes "phase5 E W f clues loc td ts srcs sat s = (Inr u, s')"
  shows "\<exists>es t1 t2 rep v c.
           report s' = Some rep
         \<and> get_prop rep ''verdict'' = Inr v
         \<and> get_prop rep ''confidenceScore'' = Inr c
         \<and> log s' = es @ [\<lparr>type = LogSuccess,
                            message = CHECK_MARK @ '' Verification complete! Report generated.'',
                            timestamp = t1\<rparr>,
                          \<lparr>type = LogInfo,
                            message = CLIPBOARD @ '' Verdict: '' @ to_string E v @ '' (''
                                        @ to_string E c @ ''% confidence)'',
                            timestamp = t2\<rparr>]"
  using assms by (auto simp: phase5_def Let_def split: sum.splits)

lemma tryBody_completes:
  assumes "tryBody E W f ts ctx s = (Inr u, s')"
  shows "\<exists>es t1 t2 rep v c.
           report s' = Some rep
         \<and> get_prop rep ''verdict'' = Inr v
         \<and> get_prop rep ''confidenceScore'' = Inr c
         \<and> log s' = es @ [\<lparr>type = LogSuccess,
                            message = CHECK_MARK @ '' Verification complete! Report generated.'',
                            timestamp = t1\<rparr>,
                          \<lparr>type = LogInfo,
                            message = CLIPBOARD @ '' Verdict: '' @ to_string E v @ '' (''
                                        @ to_string E c @ ''% confidence)'',
                            timestamp = t2\<rparr>]"
proof -
  from assms obtain clues loc srcs sat td s4
    where "phase5 E W f clues loc td ts srcs sat s4 = (Inr u, s')"
    unfolding tryBody_def by (auto split: sum.splits prod.splits)
  then show ?thesis by (rule phase5_completes)
qed

lemma phase3_invokes:
  assumes "get_prop loc ''latitude'' = Inr la" and "get_prop loc ''longitude'' = Inr lo"
    and "truthy la" and "truthy lo"
    and "phase3 E W loc ts s = (r, s')"
  shows "GetSatelliteImagery la lo (dateOf ts) \<in> set (invoked s')"
proof -
  let ?s2 = "invoke (GetSatelliteImagery la lo (dateOf ts))
               (addLogEntry E LogProcessing
                  (SATELLITE @ '' PHASE 3: Fetching Copernicus satellite imagery...'') s)"
  have "quiet ?s2 s'"
    using assms
    by (auto simp: phase3_def Let_def split: sum.splits prod.splits if_splits
        dest!: logFirstImages_quiet quiet_addLog_left)
  then show ?thesis
    by (auto simp: quiet_def frame_def)
qed

lemma phase3_skips:
  assumes "get_prop loc ''latitude'' = Inr la"
    and "\<not> truthy la \<or> (\<exists>lo. get_prop loc ''longitude'' = Inr lo \<and> \<not> truthy lo)"
  shows "phase3 E W loc ts s = (Inr JNull, s)"
  using assms by (auto simp: phase3_def)

lemma phase1_ok:
  assumes "analyzeMediaForClues E W f ctx = Inr clues"
  shows "\<exists>s'. phase1 E W f ctx s = (Inr clues, s')"
  using assms by (simp add: phase1_def Let_def)

lemma phase2_fallback:
  assumes "findLocationWithGrounding E W clues ctx = Inr (location_fallback t, srcs)"
  shows "\<exists>s'. phase2 E W clues ctx s = (Inr (location_fallback t, srcs), s')"
  using assms by (simp add: phase2_def Let_def location_fallback_props)

lemma phase4_fallback:
  assumes "determineTimestamp E W f loc (dateOf ts) = Inr (time_fallback t)"
  shows "\<exists>s'. phase4 E W f loc ts s = (Inr (time_fallback t), s')"
  using assms by (simp add: phase4_def Let_def time_fallback_props)

lemma tryBody_after_phase3:
  assumes "phases_1_to_3 E W f ts ctx s = (r3, s3)"
  shows "\<exists>r s'. tryBody E W f ts ctx s = (r, s') \<and> frame s3 s'"
proof (cases r3)
  case (Inl e)
  with assms show ?thesis
    by (simp add: tryBody_def phases_1_to_4_def frame_def)
next
  case (Inr v)
  obtain clues loc srcs sat where v: "v = (clues, loc, srcs, sat)"
    by (cases v) auto
  obtain r4 s4 where p4: "phase4 E W f loc ts s3 = (r4, s4)"
    by (cases "phase4 E W f loc ts s3")
  have f4: "frame s3 s4"
    using phase4_quiet[OF p4] by (rule quiet_frame)
  show ?thesis
  proof (cases r4)
    case (Inl e)
    with assms Inr v p4 f4 show ?thesis
      by (simp add: tryBody_def phases_1_to_4_def)
  next
    case td: (Inr td)
    obtain r5 s5 where p5: "phase5 E W f clues loc td ts srcs sat s4 = (r5, s5)"
      by (cases "phase5 E W f clues loc td ts srcs sat s4")
    have "frame s3 s5"
      using frame_trans[OF f4 phase5_frame[OF p5]] .
    with assms Inr v p4 td p5 show ?thesis
      by (simp add: tryBody_def phases_1_to_4_def)
  qed
qed

lemma run_keeps_invoked:
  assumes "str_truthy (API_KEY E)"
    and "phases_1_to_3 E W f ts ctx (fresh s) = (r3, s3)"
    and "c \<in> set (invoked s3)"
  shows "c \<in> set (invoked (snd (runVerification E W f ts ctx s)))"
proof -
  obtain r s' where t: "tryBody E W f ts ctx (fresh s) = (r, s')" and fr: "frame s3 s'"
    using tryBody_after_phase3[OF assms(2)] by blast
  show ?thesis
    using run_invoked[OF assms(1) t] frame_invoked[OF fr assms(3)] by simp
qed

section \<open>Replies of the proxy\<close>

lemma mapItems_length: "mapItems E xs = Inr ys \<Longrightarrow> length ys = length xs"
  by (induction xs arbitrary: ys) (auto split: sum.splits)

lemma wire_elems_length: "length (wire_elems xs) = length xs"
  by (induction xs) auto

lemma results_nonempty:
  assumes "has_results E v = Inr True" and "js_map E v = Inr ys"
  shows "ys \<noteq> []"
proof (cases v)
  case (JArr xs)
  with assms have "xs \<noteq> []" by (auto simp: has_results_def)
  moreover from assms JArr have "length ys = length xs" by (simp add: mapItems_length)
  ultimately show ?thesis by auto
qed (use assms in auto)

lemma search_result_fields:
  "res_status (search_result (JBool b) xs l d) = 200"
  "get_prop (res_body (search_result (JBool b) xs l d)) ''available'' = Inr (JBool b)"
  "get_prop (res_body (search_result (JBool b) xs l d)) ''imagery'' = Inr (JArr (wire_elems xs))"
  by (simp_all add: search_result_def)

lemma search_reply_fields:
  assumes "search_reply E q eds resp = Inr rep"
  shows "\<exists>b xs. get_prop (res_body rep) ''available'' = Inr (JBool b)
            \<and> get_prop (res_body rep) ''imagery'' = Inr (JArr xs) \<and> (b \<longleftrightarrow> xs \<noteq> [])"
proof -
  from assms consider
      (found) v ys where "has_results E v = Inr True" "js_map E v = Inr ys"
        "rep = search_result (JBool True) ys
                 (JObj [(''lat'', float_json (parseFloat E (the (lat q)))),
                        (''lon'', float_json (parseFloat E (the (lon q))))])
                 (JStr (split_first CHR ''T'' eds))"
    | (none) "rep = search_result (JBool False) []
                 (JObj [(''lat'', float_json (parseFloat E (the (lat q)))),
                        (''lon'', float_json (parseFloat E (the (lon q))))])
                 (JStr (split_first CHR ''T'' eds))"
    by (auto simp: search_reply_def Let_def split: if_splits sum.splits)
  then show ?thesis
  proof cases
    case found
    from results_nonempty[OF found(1,2)] have "wire_elems ys \<noteq> []"
      using wire_elems_length[of ys] by auto
    with found(3) show ?thesis by (auto simp: search_result_fields)
  next
    case none
    then show ?thesis by (auto simp: search_result_fields)
  qed
qed

lemma search_handler_200:
  assumes "res_status (fst (search_handler E C U q)) = 200"
  shows "\<exists>eds resp. search_reply E q eds resp = Inr (fst (search_handler E C U q))"
  using assms
  by (auto simp: search_handler_def search_try_def missing_parameters_def Let_def
      split: sum.splits prod.splits if_splits)





section \<open>Report synthesis (phase 5)\<close>

text \<open>
  Claim C1 says that the pipeline run rejects when the report of phase 5 does not parse.
  In the run below every completion is prose: the five phases are reached, the report
  request is answered with a text that is not JSON, and the promise of
  \<^verbatim>\<open>runVerification\<close> resolves.
\<close>

theorem report_parse_failure_resolves_counterexample:
  "JSON_parse sample_env (clean_json sample_env (resp_text prose_response)) = None
   \<and> generateContent offline_world
        (ReportPrompt (mimeType sample_file) ''QUJD'' (resp_text prose_response)
           (location_fallback (resp_text prose_response))
           (time_fallback (resp_text prose_response)) '''' []
           (getSatelliteImagery sample_env offline_world (JNum 31.5) (JNum 34.45) None))
        = Inr prose_response
   \<and> invoked (snd (runVerification sample_env offline_world sample_file '''' ''Gaza Strip'' idle))
        = [AnalyzeMediaForClues, FindLocationWithGrounding,
           GetSatelliteImagery (JNum 31.5) (JNum 34.45) None, DetermineTimestamp,
           GenerateVerificationReport]
   \<and> fst (runVerification sample_env offline_world sample_file '''' ''Gaza Strip'' idle) = Inr ()"
  by code_simp

text \<open>
  Claim C1, amended. When the answer to the report request of phase 5 is a text that, once
  the code fences are stripped, does not parse as JSON, the service method rejects with the
  error "AI returned a report in an invalid format."; the run that reached phase 5 catches
  that rejection, so its own promise resolves; it stores the message as its error, ends its
  log with an entry of kind error whose message carries it, and leaves the report state
  null.
\<close>

theorem report_parse_failure_aborts_run:
  assumes "read_for_report W = Inr b"
    and "get_prop td ''estimatedTimeOfDay'' = Inr x"
    and "generateContent W (ReportPrompt (mimeType f) b clues loc td ts srcs sat) = Inr r"
    and "JSON_parse E (clean_json E (resp_text r)) = None"
    and "str_truthy (API_KEY E)"
    and "phases_1_to_4 E W f ts ctx (fresh s) = (Inr (clues, loc, srcs, sat, td), s4)"
  shows "generateVerificationReport E W f clues loc td ts srcs sat
           = Inl (Error ''AI returned a report in an invalid format.'')
       \<and> fst (runVerification E W f ts ctx s) = Inr ()
       \<and> error (snd (runVerification E W f ts ctx s))
           = Some ''AI returned a report in an invalid format.''
       \<and> log (snd (runVerification E W f ts ctx s)) \<noteq> []
       \<and> type (last (log (snd (runVerification E W f ts ctx s)))) = LogError
       \<and> message (last (log (snd (runVerification E W f ts ctx s))))
           = CROSS_MARK @ '' Verification failed: AI returned a report in an invalid format.''
       \<and> report (snd (runVerification E W f ts ctx s)) = None"
proof -
  let ?e = "Error ''AI returned a report in an invalid format.''"
  have g: "generateVerificationReport E W f clues loc td ts srcs sat = Inl ?e"
    using phase5_parse_failure[OF assms(1-4)] .
  obtain s5 where p5: "phase5 E W f clues loc td ts srcs sat s4 = (Inl ?e, s5)"
    and r5: "report s5 = report s4"
    using phase5_rejects[OF g] by blast
  have "report s4 = report (fresh s)"
    using phases_1_to_4_quiet[OF assms(6)] by (simp add: quiet_def)
  then have rep: "report s5 = None"
    using r5 by (simp add: fresh_def)
  have t: "tryBody E W f ts ctx (fresh s) = (Inl ?e, s5)"
    using assms(6) p5 by (simp add: tryBody_def)
  show ?thesis
    using g rep by (simp add: run_caught[OF assms(5) t] errorMessageOf_def Error_def)
qed

text \<open>
  The statement above at a concrete run: every completion is prose, so phases 2 and 4 fall
  back and phase 5 fails.
\<close>

theorem report_parse_failure_aborts_run_witness:
  "read_for_report offline_world = Inr ''QUJD''
   \<and> get_prop (time_fallback (resp_text prose_response)) ''estimatedTimeOfDay'' = Inr (JStr ''unknown'')
   \<and> generateContent offline_world
        (ReportPrompt (mimeType sample_file) ''QUJD'' (resp_text prose_response)
           (location_fallback (resp_text prose_response))
           (time_fallback (resp_text prose_response)) '''' []
           (getSatelliteImagery sample_env offline_world (JNum 31.5) (JNum 34.45) None))
        = Inr prose_response
   \<and> JSON_parse sample_env (clean_json sample_env (resp_text prose_response)) = None
   \<and> str_truthy (API_KEY sample_env)
   \<and> fst (phases_1_to_4 sample_env offline_world sample_file '''' ''Gaza Strip'' (fresh idle))
        = Inr (resp_text prose_response, location_fallback (resp_text prose_response), [],
               getSatelliteImagery sample_env offline_world (JNum 31.5) (JNum 34.45) None,
               time_fallback (resp_text prose_response))
   \<and> generateVerificationReport sample_env offline_world sample_file (resp_text prose_response)
        (location_fallback (resp_text prose_response)) (time_fallback (resp_text prose_response))
        '''' [] (getSatelliteImagery sample_env offline_world (JNum 31.5) (JNum 34.45) None)
        = Inl (Error ''AI returned a report in an invalid format.'')
   \<and> fst (runVerification sample_env offline_world sample_file '''' ''Gaza Strip'' idle) = Inr ()
   \<and> error (snd (runVerification sample_env offline_world sample_file '''' ''Gaza Strip'' idle))
        = Some ''AI returned a report in an invalid format.''
   \<and> type (last (log (snd (runVerification sample_env offline_world sample_file ''''
                                ''Gaza Strip'' idle)))) = LogError
   \<and> message (last (log (snd (runVerification sample_env offline_world sample_file ''''
                                   ''Gaza Strip'' idle))))
        = CROSS_MARK @ '' Verification failed: AI returned a report in an invalid format.''
   \<and> report (snd (runVerification sample_env offline_world sample_file '''' ''Gaza Strip'' idle))
        = None"
proof -
  let ?t = "resp_text prose_response"
  let ?sat = "getSatelliteImagery sample_env offline_world (JNum 31.5) (JNum 34.45) None"
  have h1: "read_for_report offline_world = Inr ''QUJD''"
    by (simp add: offline_world_def)
  have h2: "get_prop (time_fallback ?t) ''estimatedTimeOfDay'' = Inr (JStr ''unknown'')"
    by (simp add: time_fallback_def)
  have h3: "generateContent offline_world
        (ReportPrompt (mimeType sample_file) ''QUJD'' ?t (location_fallback ?t)
           (time_fallback ?t) '''' [] ?sat) = Inr prose_response"
    by (simp add: offline_world_def)
  have h4: "JSON_parse sample_env (clean_json sample_env ?t) = None"
    by code_simp
  have h5: "str_truthy (API_KEY sample_env)"
    by (simp add: sample_env_def str_truthy_def)
  have h6: "fst (phases_1_to_4 sample_env offline_world sample_file '''' ''Gaza Strip'' (fresh idle))
        = Inr (?t, location_fallback ?t, [], ?sat, time_fallback ?t)"
    by code_simp
  then have h6': "phases_1_to_4 sample_env offline_world sample_file '''' ''Gaza Strip'' (fresh idle)
        = (Inr (?t, location_fallback ?t, [], ?sat, time_fallback ?t),
           snd (phases_1_to_4 sample_env offline_world sample_file '''' ''Gaza Strip'' (fresh idle)))"
    by (metis prod.collapse)
  from report_parse_failure_aborts_run[OF h1 h2 h3 h4 h5 h6'] h1 h2 h3 h4 h5 h6
  show ?thesis by simp
qed

section \<open>Geolocation (phase 2)\<close>

text \<open>
  Claim C2. When the answer to the structuring request of phase 2 does not parse as JSON,
  \<^verbatim>\<open>findLocationWithGrounding\<close> returns (it does not throw) an estimate with
  confidence 30 and accuracy "region" whose address is the free text of the grounded answer;
  and a run whose phase 1 succeeded goes on to phase 3: it calls the imagery client, with
  the fallback coordinates.
\<close>

theorem location_parse_failure_falls_back:
  assumes "generateContent W (GroundingPrompt clues ctx) = Inr r1"
    and "generateContent W (StructuringPrompt (resp_text r1)) = Inr r2"
    and "JSON_parse E (clean_json E (resp_text r2)) = None"
  shows "(\<exists>loc srcs. findLocationWithGrounding E W clues ctx = Inr (loc, srcs)
            \<and> get_prop loc ''confidence'' = Inr (JNum 30)
            \<and> get_prop loc ''accuracy'' = Inr (JStr ''region'')
            \<and> get_prop loc ''address'' = Inr (JStr (resp_text r1)))
       \<and> (str_truthy (API_KEY E) \<and> analyzeMediaForClues E W f ctx = Inr clues \<longrightarrow>
            GetSatelliteImagery (JNum 31.5) (JNum 34.45) (dateOf ts)
              \<in> set (invoked (snd (runVerification E W f ts ctx s))))"
proof -
  let ?loc = "location_fallback (resp_text r1)"
  let ?srcs = "map source_obj (List.map_filter id (groundingChunks r1))"
  have fl: "findLocationWithGrounding E W clues ctx = Inr (?loc, ?srcs)"
    using findLocation_fallback[OF assms] .
  have part1: "\<exists>loc srcs. findLocationWithGrounding E W clues ctx = Inr (loc, srcs)
            \<and> get_prop loc ''confidence'' = Inr (JNum 30)
            \<and> get_prop loc ''accuracy'' = Inr (JStr ''region'')
            \<and> get_prop loc ''address'' = Inr (JStr (resp_text r1))"
    using fl by (simp add: location_fallback_props)
  have part2: "GetSatelliteImagery (JNum 31.5) (JNum 34.45) (dateOf ts)
              \<in> set (invoked (snd (runVerification E W f ts ctx s)))"
    if key: "str_truthy (API_KEY E)" and an: "analyzeMediaForClues E W f ctx = Inr clues"
  proof -
    obtain s1 where p1: "phase1 E W f ctx (preamble E ts ctx (fresh s)) = (Inr clues, s1)"
      using phase1_ok[OF an] by blast
    obtain s2 where p2: "phase2 E W clues ctx s1 = (Inr (?loc, ?srcs), s2)"
      using phase2_fallback[OF fl] by blast
    obtain r3 s3 where p3: "phase3 E W ?loc ts s2 = (r3, s3)"
      by (cases "phase3 E W ?loc ts s2")
    have inv: "GetSatelliteImagery (JNum 31.5) (JNum 34.45) (dateOf ts) \<in> set (invoked s3)"
      by (rule phase3_invokes[OF _ _ _ _ p3]) (simp_all add: location_fallback_props)
    have "\<exists>r. phases_1_to_3 E W f ts ctx (fresh s) = (r, s3)"
      using p1 p2 p3 by (cases r3) (simp_all add: phases_1_to_3_def)
    then obtain r where "phases_1_to_3 E W f ts ctx (fresh s) = (r, s3)" ..
    from run_keeps_invoked[OF key this inv] show ?thesis .
  qed
  from part1 part2 show ?thesis by blast
qed

text \<open>
  The statement above at a concrete run with a claimed timestamp.
\<close>

theorem location_parse_failure_falls_back_witness:
  "generateContent offline_world (GroundingPrompt (resp_text prose_response) ''Gaza Strip'')
     = Inr prose_response
   \<and> generateContent offline_world (StructuringPrompt (resp_text prose_response)) = Inr prose_response
   \<and> JSON_parse sample_env (clean_json sample_env (resp_text prose_response)) = None
   \<and> str_truthy (API_KEY sample_env)
   \<and> analyzeMediaForClues sample_env offline_world sample_file ''Gaza Strip''
        = Inr (resp_text prose_response)
   \<and> (\<exists>loc srcs. findLocationWithGrounding sample_env offline_world (resp_text prose_response)
                     ''Gaza Strip'' = Inr (loc, srcs)
          \<and> get_prop loc ''confidence'' = Inr (JNum 30)
          \<and> get_prop loc ''accuracy'' = Inr (JStr ''region'')
          \<and> get_prop loc ''address'' = Inr (JStr (resp_text prose_response)))
   \<and> GetSatelliteImagery (JNum 31.5) (JNum 34.45) (dateOf ''2024-10-23T10:00'')
        \<in> set (invoked (snd (runVerification sample_env offline_world sample_file
                                 ''2024-10-23T10:00'' ''Gaza Strip'' idle)))"
proof -
  let ?t = "resp_text prose_response"
  have h1: "generateContent offline_world (GroundingPrompt ?t ''Gaza Strip'') = Inr prose_response"
    by (simp add: offline_world_def)
  have h2: "generateContent offline_world (StructuringPrompt ?t) = Inr prose_response"
    by (simp add: offline_world_def)
  have h3: "JSON_parse sample_env (clean_json sample_env ?t) = None"
    by code_simp
  have h4: "str_truthy (API_KEY sample_env)"
    by (simp add: sample_env_def str_truthy_def)
  have h5: "analyzeMediaForClues sample_env offline_world sample_file ''Gaza Strip'' = Inr ?t"
    by (simp add: analyzeMediaForClues_def offline_world_def)
  from location_parse_failure_falls_back[where E = sample_env and f = sample_file
      and ts = "''2024-10-23T10:00''" and s = idle, OF h1 h2 h3] h1 h2 h3 h4 h5
  show ?thesis by simp
qed

text \<open>
  Claim C10. On a parse failure of phase 2 the coordinates of the fallback estimate are the
  constants 31.5 and 34.45, whatever the clues, the submitted location context and the
  grounded text are.
\<close>

theorem location_fallback_is_gaza:
  assumes "generateContent W (GroundingPrompt clues ctx) = Inr r1"
    and "generateContent W (StructuringPrompt (resp_text r1)) = Inr r2"
    and "JSON_parse E (clean_json E (resp_text r2)) = None"
  shows "\<exists>loc srcs. findLocationWithGrounding E W clues ctx = Inr (loc, srcs)
            \<and> get_prop loc ''latitude'' = Inr (JNum 31.5)
            \<and> get_prop loc ''longitude'' = Inr (JNum 34.45)"
  using findLocation_fallback[OF assms] by (simp add: location_fallback_props)

text \<open>
  The statement above for a submission whose location context is another region.
\<close>

theorem location_fallback_is_gaza_witness:
  "generateContent offline_world (GroundingPrompt ''a street sign in Cyrillic'' ''Kyiv'')
     = Inr prose_response
   \<and> generateContent offline_world (StructuringPrompt (resp_text prose_response)) = Inr prose_response
   \<and> JSON_parse sample_env (clean_json sample_env (resp_text prose_response)) = None
   \<and> (\<exists>loc srcs. findLocationWithGrounding sample_env offline_world ''a street sign in Cyrillic''
                     ''Kyiv'' = Inr (loc, srcs)
          \<and> get_prop loc ''latitude'' = Inr (JNum 31.5)
          \<and> get_prop loc ''longitude'' = Inr (JNum 34.45))"
proof -
  let ?t = "resp_text prose_response"
  have h1: "generateContent offline_world (GroundingPrompt ''a street sign in Cyrillic'' ''Kyiv'')
     = Inr prose_response"
    by (simp add: offline_world_def)
  have h2: "generateContent offline_world (StructuringPrompt ?t) = Inr prose_response"
    by (simp add: offline_world_def)
  have h3: "JSON_parse sample_env (clean_json sample_env ?t) = None"
    by code_simp
  from location_fallback_is_gaza[OF h1 h2 h3] h1 h2 h3
  show ?thesis by simp
qed

section \<open>Time of day (phase 4)\<close>

text \<open>
  Claim C3. When the answer to the request of phase 4 does not parse as JSON,
  \<^verbatim>\<open>determineTimestamp\<close> returns an estimate with primary method "error",
  confidence 0 and time of day "unknown"; and a run that completed phases 1 to 3 goes on to
  phase 5: it calls the report synthesis.
\<close>

theorem time_parse_failure_falls_back:
  assumes "read_for_time W = Inr b"
    and "get_prop loc ''address'' = Inr a"
    and "get_prop loc ''latitude'' = Inr la"
    and "get_prop loc ''longitude'' = Inr lo"
    and "generateContent W (TimestampPrompt (mimeType f) b a la lo (dateOf ts)) = Inr r"
    and "JSON_parse E (clean_json E (resp_text r)) = None"
  shows "(\<exists>td. determineTimestamp E W f loc (dateOf ts) = Inr td
            \<and> get_prop td ''primaryMethod'' = Inr (JStr ''error'')
            \<and> get_prop td ''confidence'' = Inr (JNum 0)
            \<and> get_prop td ''estimatedTimeOfDay'' = Inr (JStr ''unknown''))
       \<and> (str_truthy (API_KEY E)
            \<and> phases_1_to_3 E W f ts ctx (fresh s) = (Inr (clues, loc, srcs, sat), s3) \<longrightarrow>
            GenerateVerificationReport \<in> set (invoked (snd (runVerification E W f ts ctx s))))"
proof -
  let ?td = "time_fallback (resp_text r)"
  have dt: "determineTimestamp E W f loc (dateOf ts) = Inr ?td"
    using determineTimestamp_fallback[OF assms] .
  have part1: "\<exists>td. determineTimestamp E W f loc (dateOf ts) = Inr td
            \<and> get_prop td ''primaryMethod'' = Inr (JStr ''error'')
            \<and> get_prop td ''confidence'' = Inr (JNum 0)
            \<and> get_prop td ''estimatedTimeOfDay'' = Inr (JStr ''unknown'')"
    using dt by (simp add: time_fallback_props)
  have part2: "GenerateVerificationReport \<in> set (invoked (snd (runVerification E W f ts ctx s)))"
    if key: "str_truthy (API_KEY E)"
      and p13: "phases_1_to_3 E W f ts ctx (fresh s) = (Inr (clues, loc, srcs, sat), s3)"
  proof -
    obtain s4 where p4: "phase4 E W f loc ts s3 = (Inr ?td, s4)"
      using phase4_fallback[OF dt] by blast
    obtain r5 s5 where p5: "phase5 E W f clues loc ?td ts srcs sat s4 = (r5, s5)"
      by (cases "phase5 E W f clues loc ?td ts srcs sat s4")
    have t: "tryBody E W f ts ctx (fresh s) = (r5, s5)"
      using p13 p4 p5 by (simp add: tryBody_def phases_1_to_4_def)
    have "GenerateVerificationReport \<in> set (invoked s5)"
      using phase5_invokes[of E W f clues loc ?td ts srcs sat s4] p5 by simp
    then show ?thesis
      using run_invoked[OF key t] by simp
  qed
  from part1 part2 show ?thesis by blast
qed

text \<open>
  The statement above at a concrete run.
\<close>

theorem time_parse_failure_falls_back_witness:
  "read_for_time offline_world = Inr ''QUJD''
   \<and> get_prop (location_fallback (resp_text prose_response)) ''address''
        = Inr (JStr (resp_text prose_response))
   \<and> get_prop (location_fallback (resp_text prose_response)) ''latitude'' = Inr (JNum 31.5)
   \<and> get_prop (location_fallback (resp_text prose_response)) ''longitude'' = Inr (JNum 34.45)
   \<and> generateContent offline_world
        (TimestampPrompt (mimeType sample_file) ''QUJD'' (JStr (resp_text prose_response))
           (JNum 31.5) (JNum 34.45) (dateOf '''')) = Inr prose_response
   \<and> JSON_parse sample_env (clean_json sample_env (resp_text prose_response)) = None
   \<and> str_truthy (API_KEY sample_env)
   \<and> fst (phases_1_to_3 sample_env offline_world sample_file '''' ''Gaza Strip'' (fresh idle))
        = Inr (resp_text prose_response, location_fallback (resp_text prose_response), [],
               getSatelliteImagery sample_env offline_world (JNum 31.5) (JNum 34.45) None)
   \<and> (\<exists>td. determineTimestamp sample_env offline_world sample_file
                (location_fallback (resp_text prose_response)) (dateOf '''') = Inr td
          \<and> get_prop td ''primaryMethod'' = Inr (JStr ''error'')
          \<and> get_prop td ''confidence'' = Inr (JNum 0)
          \<and> get_prop td ''estimatedTimeOfDay'' = Inr (JStr ''unknown''))
   \<and> GenerateVerificationReport
        \<in> set (invoked (snd (runVerification sample_env offline_world sample_file ''''
                                 ''Gaza Strip'' idle)))"
proof -
  let ?t = "resp_text prose_response"
  let ?loc = "location_fallback ?t"
  let ?sat = "getSatelliteImagery sample_env offline_world (JNum 31.5) (JNum 34.45) None"
  have h1: "read_for_time offline_world = Inr ''QUJD''"
    by (simp add: offline_world_def)
  have h2: "get_prop ?loc ''address'' = Inr (JStr ?t)"
    and h3: "get_prop ?loc ''latitude'' = Inr (JNum 31.5)"
    and h4: "get_prop ?loc ''longitude'' = Inr (JNum 34.45)"
    by (simp_all add: location_fallback_def)
  have h5: "generateContent offline_world
        (TimestampPrompt (mimeType sample_file) ''QUJD'' (JStr ?t) (JNum 31.5) (JNum 34.45)
           (dateOf '''')) = Inr prose_response"
    by (simp add: offline_world_def)
  have h6: "JSON_parse sample_env (clean_json sample_env ?t) = None"
    by code_simp
  have h7: "str_truthy (API_KEY sample_env)"
    by (simp add: sample_env_def str_truthy_def)
  have h8: "fst (phases_1_to_3 sample_env offline_world sample_file '''' ''Gaza Strip'' (fresh idle))
        = Inr (?t, ?loc, [], ?sat)"
    by code_simp
  then have h8': "phases_1_to_3 sample_env offline_world sample_file '''' ''Gaza Strip'' (fresh idle)
        = (Inr (?t, ?loc, [], ?sat),
           snd (phases_1_to_3 sample_env offline_world sample_file '''' ''Gaza Strip'' (fresh idle)))"
    by (metis prod.collapse)
  from time_parse_failure_falls_back[where s = idle and ctx = "''Gaza Strip''" and clues = ?t
      and srcs = "[]" and sat = ?sat
      and ?s3.0 = "snd (phases_1_to_3 sample_env offline_world sample_file '''' ''Gaza Strip''
                         (fresh idle))", OF h1 h2 h3 h4 h5 h6]
    h1 h2 h3 h4 h5 h6 h7 h8 h8'
  show ?thesis by simp
qed

section \<open>The imagery client\<close>

text \<open>
  Claim C4. If the search of the imagery client fails -- its \<^verbatim>\<open>try\<close> block raises,
  as it does in particular when every request throws, is answered with a status that is
  not ok, or is answered with a body that cannot be read -- then
  \<^verbatim>\<open>getSatelliteImagery\<close> returns a value (it never raises) with
  \<^verbatim>\<open>available = false\<close>, the coordinates it was given, and as search date the given
  date, or, when the date is null or empty, the date part of the current time in ISO form.
\<close>

theorem imagery_failure_degrades:
  assumes "getSatelliteImagery_try E W la lo d = Inl e
           \<or> (\<forall>u. case fetch W u of Inl x \<Rightarrow> True | Inr r \<Rightarrow> \<not> ok r \<or> isl (json r))"
  shows "getSatelliteImagery E W la lo d =
     JObj [(''available'', JBool False),
           (''location'', JObj [(''lat'', la), (''lon'', lo)]),
           (''searchDate'',
              JStr (case d of
                      None \<Rightarrow> takeWhile (\<lambda>c. c \<noteq> CHR ''T'') (toISOString E (now E))
                    | Some t \<Rightarrow> if t = []
                               then takeWhile (\<lambda>c. c \<noteq> CHR ''T'') (toISOString E (now E))
                               else t))]"
proof -
  have "\<exists>e'. getSatelliteImagery_try E W la lo d = Inl e'"
    using assms try_fails[of W E la lo d] by blast
  then obtain e' where "getSatelliteImagery_try E W la lo d = Inl e'" ..
  then show ?thesis
    by (simp add: getSatelliteImagery_def satellite_fallback_def str_truthy_def today_def
        split_first_def split: option.splits)
qed

text \<open>
  The statement above twice: without a date, for a proxy whose answer is ok but not JSON; and
  with a date, for a proxy that answers every search with status 500.
\<close>

theorem imagery_failure_degrades_witness:
  "getSatelliteImagery_try sample_env bad_body_world (JNum 31.5) (JNum 34.45) None
     = Inl (Err ''Unexpected token < in JSON at position 0'' None None)
   \<and> getSatelliteImagery sample_env bad_body_world (JNum 31.5) (JNum 34.45) None
      = JObj [(''available'', JBool False),
              (''location'', JObj [(''lat'', JNum 31.5), (''lon'', JNum 34.45)]),
              (''searchDate'', JStr ''2024-10-23'')]
   \<and> fetch proxy_error_world = (\<lambda>url. Inr server_error)
   \<and> \<not> ok server_error
   \<and> getSatelliteImagery sample_env proxy_error_world (JNum 31.5) (JNum 34.45)
        (Some ''2024-10-01'')
      = JObj [(''available'', JBool False),
              (''location'', JObj [(''lat'', JNum 31.5), (''lon'', JNum 34.45)]),
              (''searchDate'', JStr ''2024-10-01'')]"
proof -
  have h1: "getSatelliteImagery_try sample_env bad_body_world (JNum 31.5) (JNum 34.45) None
     = Inl (Err ''Unexpected token < in JSON at position 0'' None None)"
    by code_simp
  have d: "takeWhile (\<lambda>c. c \<noteq> CHR ''T'') (toISOString sample_env (now sample_env))
             = ''2024-10-23''"
    by code_simp
  have h2: "fetch proxy_error_world = (\<lambda>url. Inr server_error)"
    by (simp add: proxy_error_world_def)
  have h3: "\<not> ok server_error"
    by (simp add: server_error_def)
  have h4: "\<forall>u. case fetch proxy_error_world u of Inl x \<Rightarrow> True
                                              | Inr r \<Rightarrow> \<not> ok r \<or> isl (json r)"
    using h2 h3 by simp
  from imagery_failure_degrades[where E = sample_env and W = bad_body_world
         and la = "JNum 31.5" and lo = "JNum 34.45" and d = None, OF disjI1, OF h1]
       imagery_failure_degrades[where E = sample_env and W = proxy_error_world
         and la = "JNum 31.5" and lo = "JNum 34.45" and d = "Some ''2024-10-01''"
         and e = NonError, OF disjI2, OF h4]
       h1 h2 h3 d
  show ?thesis by simp
qed

section \<open>Satellite retrieval (phase 3)\<close>

text \<open>
  Claim C6 says that phase 3 runs exactly when phase 2 produced a latitude and a longitude.
  The guard of the hook tests the two values for truthiness, and the number 0 is falsy: in
  the run below phase 2 returns latitude 0 and longitude 10, and the imagery client is not
  among the service calls of the run.
\<close>

theorem zero_latitude_skips_imagery:
  "findLocationWithGrounding sample_env equator_world (resp_text prose_response) ''Gaza Strip''
     = Inr (equator_location, [])
   \<and> get_prop equator_location ''latitude'' = Inr (JNum 0)
   \<and> get_prop equator_location ''longitude'' = Inr (JNum 10)
   \<and> invoked (snd (runVerification sample_env equator_world sample_file '''' ''Gaza Strip'' idle))
       = [AnalyzeMediaForClues, FindLocationWithGrounding, DetermineTimestamp,
          GenerateVerificationReport]"
  by code_simp

section \<open>The search endpoint of the proxy\<close>

text \<open>
  Claim C5. A search request without the \<^verbatim>\<open>lat\<close> or without the \<^verbatim>\<open>lon\<close>
  parameter is answered with status 400 and an error body of kind
  "Missing required parameters", and no upstream request is issued.
\<close>

theorem search_missing_parameters:
  assumes "lat q = None \<or> lon q = None"
  shows "search_handler E C U q =
     (\<lparr>res_status = 400,
       res_body = JObj [(''error'', JStr ''Missing required parameters''),
                        (''message'', JStr ''Latitude and longitude are required'')]\<rparr>, [])"
  using assms
  by (auto simp: search_handler_def search_try_def missing_parameters_def str_truthy_def)

text \<open>
  The statement above for a request without \<^verbatim>\<open>lat\<close>.
\<close>

theorem search_missing_parameters_witness:
  "(lat no_lat_query = None \<or> lon no_lat_query = None)
   \<and> search_handler sample_env sample_credentials empty_catalogue no_lat_query =
     (\<lparr>res_status = 400,
       res_body = JObj [(''error'', JStr ''Missing required parameters''),
                        (''message'', JStr ''Latitude and longitude are required'')]\<rparr>, [])"
proof -
  have h: "lat no_lat_query = None \<or> lon no_lat_query = None"
    by (simp add: no_lat_query_def)
  from search_missing_parameters[OF h] h show ?thesis by simp
qed

text \<open>
  Claim C7 says that the \<^verbatim>\<open>imagery\<close> field of a result is present exactly when
  \<^verbatim>\<open>available\<close> is true. For a catalogue without a matching product the endpoint
  answers \<^verbatim>\<open>available = false\<close> together with an \<^verbatim>\<open>imagery\<close> field that is
  present and holds the empty list.
\<close>

theorem empty_result_has_imagery_counterexample:
  "res_status (fst (search_handler sample_env sample_credentials empty_catalogue gaza_query)) = 200
   \<and> get_prop (res_body (fst (search_handler sample_env sample_credentials empty_catalogue
                                 gaza_query))) ''available'' = Inr (JBool False)
   \<and> get_prop (res_body (fst (search_handler sample_env sample_credentials empty_catalogue
                                 gaza_query))) ''imagery'' = Inr (JArr [])"
  by code_simp

text \<open>
  Claim C7, amended. In every result of the search endpoint (a reply with status 200) the
  \<^verbatim>\<open>imagery\<close> field is present and is a list, and that list is non-empty exactly when
  \<^verbatim>\<open>available\<close> is true; the error fallback of the imagery client has
  \<^verbatim>\<open>available = false\<close> and no \<^verbatim>\<open>imagery\<close> field.
\<close>

theorem imagery_nonempty_iff_available:
  "(res_status (fst (search_handler E C U q)) = 200 \<longrightarrow>
      (\<exists>b xs. get_prop (res_body (fst (search_handler E C U q))) ''available'' = Inr (JBool b)
         \<and> get_prop (res_body (fst (search_handler E C U q))) ''imagery'' = Inr (JArr xs)
         \<and> (b \<longleftrightarrow> xs \<noteq> [])))
   \<and> (getSatelliteImagery_try E W la lo d = Inl e \<longrightarrow>
        get_prop (getSatelliteImagery E W la lo d) ''available'' = Inr (JBool False)
        \<and> get_prop (getSatelliteImagery E W la lo d) ''imagery'' = Inr JUndefined)"
proof -
  have "\<exists>b xs. get_prop (res_body (fst (search_handler E C U q))) ''available'' = Inr (JBool b)
         \<and> get_prop (res_body (fst (search_handler E C U q))) ''imagery'' = Inr (JArr xs)
         \<and> (b \<longleftrightarrow> xs \<noteq> [])"
    if "res_status (fst (search_handler E C U q)) = 200"
    using search_handler_200[OF that] search_reply_fields by blast
  moreover have "get_prop (getSatelliteImagery E W la lo d) ''available'' = Inr (JBool False)
        \<and> get_prop (getSatelliteImagery E W la lo d) ''imagery'' = Inr JUndefined"
    if "getSatelliteImagery_try E W la lo d = Inl e"
    using that by (simp add: getSatelliteImagery_def satellite_fallback_def)
  ultimately show ?thesis by blast
qed

text \<open>
  The statement above for a search in an empty catalogue and for a client that cannot
  reach the proxy.
\<close>

theorem imagery_nonempty_iff_available_witness:
  "res_status (fst (search_handler sample_env sample_credentials empty_catalogue gaza_query)) = 200
   \<and> (\<exists>b xs. get_prop (res_body (fst (search_handler sample_env sample_credentials
                                          empty_catalogue gaza_query))) ''available''
                = Inr (JBool b)
         \<and> get_prop (res_body (fst (search_handler sample_env sample_credentials
                                      empty_catalogue gaza_query))) ''imagery''
                = Inr (JArr xs)
         \<and> (b \<longleftrightarrow> xs \<noteq> []))
   \<and> getSatelliteImagery_try sample_env offline_world (JNum 31.5) (JNum 34.45) None
        = Inl (Err ''fetch failed'' None None)
   \<and> get_prop (getSatelliteImagery sample_env offline_world (JNum 31.5) (JNum 34.45) None)
        ''available'' = Inr (JBool False)
   \<and> get_prop (getSatelliteImagery sample_env offline_world (JNum 31.5) (JNum 34.45) None)
        ''imagery'' = Inr JUndefined"
proof -
  have h1: "res_status (fst (search_handler sample_env sample_credentials empty_catalogue
                               gaza_query)) = 200"
    by code_simp
  have h2: "getSatelliteImagery_try sample_env offline_world (JNum 31.5) (JNum 34.45) None
        = Inl (Err ''fetch failed'' None None)"
    by code_simp
  from imagery_nonempty_iff_available[where E = sample_env and C = sample_credentials
      and U = empty_catalogue and q = gaza_query and W = offline_world and la = "JNum 31.5"
      and lo = "JNum 34.45" and d = None and e = "Err ''fetch failed'' None None"] h1 h2
  show ?thesis by simp
qed

section \<open>The reasoning log\<close>

text \<open>
  Claim C8 says that the final log entry of a completed invocation is of kind success or
  error. A run that resolves with a report appends the verdict as an entry of kind info
  after the success entry.
\<close>

theorem completed_run_ends_with_info_counterexample:
  "fst (runVerification sample_env verified_world sample_file '''' ''Gaza Strip'' idle) = Inr ()
   \<and> report (snd (runVerification sample_env verified_world sample_file '''' ''Gaza Strip'' idle))
        \<noteq> None
   \<and> type (last (log (snd (runVerification sample_env verified_world sample_file ''''
                                ''Gaza Strip'' idle)))) = LogInfo"
  by code_simp

text \<open>
  Claim C8, amended. For every run whose service could be constructed (the API key is set),
  the promise resolves, and either the run failed and its final log entry is of kind error,
  or it produced a report and its log ends with the success entry
  "Verification complete! Report generated." followed by one entry of kind info that gives
  the verdict and the confidence score of that report.
\<close>

theorem run_ends_with_terminal_entries:
  assumes "str_truthy (API_KEY E)"
  shows "fst (runVerification E W f ts ctx s) = Inr ()
       \<and> (error (snd (runVerification E W f ts ctx s)) \<noteq> None \<longrightarrow>
            log (snd (runVerification E W f ts ctx s)) \<noteq> []
            \<and> type (last (log (snd (runVerification E W f ts ctx s)))) = LogError)
       \<and> (error (snd (runVerification E W f ts ctx s)) = None \<longrightarrow>
            report (snd (runVerification E W f ts ctx s)) \<noteq> None
            \<and> (\<exists>es t1 t2 rep v c.
                  report (snd (runVerification E W f ts ctx s)) = Some rep
                \<and> get_prop rep ''verdict'' = Inr v
                \<and> get_prop rep ''confidenceScore'' = Inr c
                \<and> log (snd (runVerification E W f ts ctx s)) =
                    es @ [\<lparr>type = LogSuccess,
                            message = CHECK_MARK @ '' Verification complete! Report generated.'',
                            timestamp = t1\<rparr>,
                          \<lparr>type = LogInfo,
                            message = CLIPBOARD @ '' Verdict: '' @ to_string E v @ '' (''
                                        @ to_string E c @ ''% confidence)'',
                            timestamp = t2\<rparr>]))"
proof -
  obtain r s' where t: "tryBody E W f ts ctx (fresh s) = (r, s')"
    by (cases "tryBody E W f ts ctx (fresh s)")
  have e: "error s' = None"
    using tryBody_frame[OF t] by (simp add: frame_def fresh_def)
  show ?thesis
  proof (cases r)
    case (Inl ex)
    with t show ?thesis
      by (simp add: run_caught[OF assms])
  next
    case (Inr u)
    with t have c: "tryBody E W f ts ctx (fresh s) = (Inr u, s')" by simp
    from tryBody_completes[OF c] obtain es t1 t2 rep v c where
      "report s' = Some rep" "get_prop rep ''verdict'' = Inr v"
      "get_prop rep ''confidenceScore'' = Inr c"
      "log s' = es @ [\<lparr>type = LogSuccess,
                        message = CHECK_MARK @ '' Verification complete! Report generated.'',
                        timestamp = t1\<rparr>,
                      \<lparr>type = LogInfo,
                        message = CLIPBOARD @ '' Verdict: '' @ to_string E v @ '' (''
                                    @ to_string E c @ ''% confidence)'',
                        timestamp = t2\<rparr>]"
      by blast
    then show ?thesis
      using e by (simp add: run_completed[OF assms c])
  qed
qed

text \<open>
  The statement above at a run that fails in phase 5 and at a run that produces a report.
\<close>

theorem run_ends_with_terminal_entries_witness:
  "str_truthy (API_KEY sample_env)
   \<and> fst (runVerification sample_env offline_world sample_file '''' ''Gaza Strip'' idle) = Inr ()
   \<and> error (snd (runVerification sample_env offline_world sample_file '''' ''Gaza Strip'' idle))
        \<noteq> None
   \<and> type (last (log (snd (runVerification sample_env offline_world sample_file ''''
                                ''Gaza Strip'' idle)))) = LogError
   \<and> fst (runVerification sample_env verified_world sample_file '''' ''Gaza Strip'' idle) = Inr ()
   \<and> error (snd (runVerification sample_env verified_world sample_file '''' ''Gaza Strip'' idle))
        = None
   \<and> report (snd (runVerification sample_env verified_world sample_file '''' ''Gaza Strip'' idle))
        \<noteq> None
   \<and> (\<exists>es t1 t2 rep v c.
         report (snd (runVerification sample_env verified_world sample_file '''' ''Gaza Strip''
                        idle)) = Some rep
       \<and> get_prop rep ''verdict'' = Inr v
       \<and> get_prop rep ''confidenceScore'' = Inr c
       \<and> log (snd (runVerification sample_env verified_world sample_file '''' ''Gaza Strip'' idle))
           = es @ [\<lparr>type = LogSuccess,
                    message = CHECK_MARK @ '' Verification complete! Report generated.'',
                    timestamp = t1\<rparr>,
                   \<lparr>type = LogInfo,
                    message = CLIPBOARD @ '' Verdict: '' @ to_string sample_env v @ '' (''
                                @ to_string sample_env c @ ''% confidence)'',
                    timestamp = t2\<rparr>])"
proof -
  have h: "str_truthy (API_KEY sample_env)"
    by (simp add: sample_env_def str_truthy_def)
  have e1: "error (snd (runVerification sample_env offline_world sample_file '''' ''Gaza Strip''
                          idle)) \<noteq> None"
    by code_simp
  have e2: "error (snd (runVerification sample_env verified_world sample_file '''' ''Gaza Strip''
                          idle)) = None"
    by code_simp
  from run_ends_with_terminal_entries[where W = offline_world and f = sample_file and ts = "''''"
         and ctx = "''Gaza Strip''" and s = idle, OF h]
       run_ends_with_terminal_entries[where W = verified_world and f = sample_file and ts = "''''"
         and ctx = "''Gaza Strip''" and s = idle, OF h]
       h e1 e2
  show ?thesis by simp
qed

section \<open>Credentials of the proxy\<close>




end
